theory Spec2Isabelle
  imports Complex_Main
begin

section \<open>JavaScript values shared by the three servers\<close>

text \<open>
  A parsed JSON value, as \<open>express.json()\<close> hands it to a handler. A missing
  property (\<open>undefined\<close>) is \<open>None\<close> in a map from property names.
\<close>

datatype json =
    JNull
  | JBool bool
  | JNum rat
  | JStr string
  | JArr "json list"
  | JObj "(string \<times> json) list"

text \<open>The truthiness JavaScript gives a value in \<open>v ? a : b\<close>.\<close>

fun truthy :: "json \<Rightarrow> bool" where
  "truthy JNull = False"
| "truthy (JBool b) = b"
| "truthy (JNum n) = (n \<noteq> 0)"
| "truthy (JStr s) = (s \<noteq> [])"
| "truthy (JArr _) = True"
| "truthy (JObj _) = True"

text \<open>
  A value that is a string or \<open>null\<close> is a \<open>string option\<close>; it is truthy
  (\<open>if (v)\<close>) when it is a non-empty string.
\<close>

definition truthy_str :: "string option \<Rightarrow> bool" where
  "truthy_str v = (case v of None \<Rightarrow> False | Some s \<Rightarrow> s \<noteq> [])"

section \<open>MPT-Issuer: the SQLite store (server.mjs, lines 29-194)\<close>

record auth_row =
  ar_holder :: string
  ar_issuance_id :: string
  ar_txid :: string
  ar_source :: string

record transfer_row =
  tr_issuer :: string
  tr_destination :: string
  tr_issuance_id :: string
  tr_value :: int
  tr_txid :: string
  tr_source :: string

record clawback_row =
  cr_issuer :: string
  cr_holder :: string
  cr_issuance_id :: string
  cr_value :: int
  cr_txid :: string
  cr_source :: string

record lock_row =
  lr_holder :: string
  lr_issuance_id :: string
  lr_locked :: bool
  lr_txid :: string
  lr_source :: string

record payload_row =
  pr_identifier :: "string option"
  pr_resolved :: bool
  pr_signed :: bool
  pr_cancelled :: bool
  pr_expired :: bool
  pr_txid :: "string option"

text \<open>
  The database file: the \<open>kv\<close> table and the audit tables. The columns
  \<open>id\<close>, \<open>created_at\<close>, \<open>updated_at\<close> and \<open>raw_json\<close> carry no
  information the handlers read back, and are left out.
\<close>

record db =
  kv :: "string \<rightharpoonup> string"
  xumm_payloads :: "string \<rightharpoonup> payload_row"
  authorizations :: "auth_row list"
  transfers :: "transfer_row list"
  clawbacks :: "clawback_row list"
  account_locks :: "lock_row list"

definition kvGet :: "db \<Rightarrow> string \<Rightarrow> string option" where
  "kvGet d k = kv d k"

text \<open>\<open>kvSet(k, v)\<close> stores \<open>String(v)\<close>; the caller passes the string.\<close>

definition kvSet :: "string \<Rightarrow> string \<Rightarrow> db \<Rightarrow> db" where
  "kvSet k v d = d\<lparr>kv := (kv d)(k \<mapsto> v)\<rparr>"

definition kvGetBool :: "db \<Rightarrow> string \<Rightarrow> bool \<Rightarrow> bool" where
  "kvGetBool d k defaultValue =
     (case kvGet d k of
        None \<Rightarrow> defaultValue
      | Some v \<Rightarrow> v = ''1'' \<or> v = ''true'' \<or> v = ''TRUE'')"

definition isBlacklisted :: "db \<Rightarrow> string \<Rightarrow> bool" where
  "isBlacklisted d account = kvGetBool d (''BLACKLIST_'' @ account) False"

definition isAutoLockEnabled :: "db \<Rightarrow> bool" where
  "isAutoLockEnabled d = kvGetBool d ''POLICY_AUTO_LOCK_AFTER_SWAP'' False"

definition isAutoUnlockEnabled :: "db \<Rightarrow> bool" where
  "isAutoUnlockEnabled d = kvGetBool d ''POLICY_AUTO_UNLOCK_AFTER_SWAP'' False"

definition isAutoClawbackEnabled :: "db \<Rightarrow> bool" where
  "isAutoClawbackEnabled d = kvGetBool d ''POLICY_AUTO_CLAWBACK_BLACKLIST'' False"

subsection \<open>POST /api/kfd/policy (server.mjs, lines 1253-1272)\<close>

record policy_response =
  pol_ok :: bool
  pol_autoLockAfterSwap :: bool
  pol_autoUnlockAfterSwap :: bool
  pol_autoClawbackBlacklist :: bool

definition flag_string :: "json \<Rightarrow> string" where
  "flag_string v = (if truthy v then ''1'' else ''0'')"

text \<open>
  The request body is \<open>req.body || {}\<close>: a map from property names to values,
  empty when there is no body.
\<close>

definition post_policy :: "(string \<rightharpoonup> json) \<Rightarrow> db \<Rightarrow> policy_response \<times> db" where
  "post_policy body d0 =
     (let d1 = (case body ''autoLockAfterSwap'' of
                  None \<Rightarrow> d0
                | Some v \<Rightarrow> kvSet ''POLICY_AUTO_LOCK_AFTER_SWAP'' (flag_string v) d0);
          d2 = (case body ''autoUnlockAfterSwap'' of
                  None \<Rightarrow> d1
                | Some v \<Rightarrow> kvSet ''POLICY_AUTO_UNLOCK_AFTER_SWAP'' (flag_string v) d1);
          d3 = (case body ''autoClawbackBlacklist'' of
                  None \<Rightarrow> d2
                | Some v \<Rightarrow> kvSet ''POLICY_AUTO_CLAWBACK_BLACKLIST'' (flag_string v) d2)
      in (\<lparr>pol_ok = True,
           pol_autoLockAfterSwap = isAutoLockEnabled d3,
           pol_autoUnlockAfterSwap = isAutoUnlockEnabled d3,
           pol_autoClawbackBlacklist = isAutoClawbackEnabled d3\<rparr>, d3))"

text \<open>The \<open>kv\<close> key a policy flag of the request body is stored under.\<close>

definition policy_key :: "string \<Rightarrow> string" where
  "policy_key flag =
     (if flag = ''autoLockAfterSwap'' then ''POLICY_AUTO_LOCK_AFTER_SWAP''
      else if flag = ''autoUnlockAfterSwap'' then ''POLICY_AUTO_UNLOCK_AFTER_SWAP''
      else ''POLICY_AUTO_CLAWBACK_BLACKLIST'')"

definition policy_flags :: "string set" where
  "policy_flags = {''autoLockAfterSwap'', ''autoUnlockAfterSwap'', ''autoClawbackBlacklist''}"

section \<open>String helpers of JavaScript\<close>

definition is_space :: "char \<Rightarrow> bool" where
  "is_space c = (c \<in> {CHR '' '', CHR 0x09, CHR 0x0A, CHR 0x0B, CHR 0x0C, CHR 0x0D})"

text \<open>\<open>String.prototype.trim\<close>, on the ASCII white space characters.\<close>

definition trim :: "string \<Rightarrow> string" where
  "trim s = rev (dropWhile is_space (rev (dropWhile is_space s)))"

definition upper_char :: "char \<Rightarrow> char" where
  "upper_char c =
     (case map_of (zip ''abcdefghijklmnopqrstuvwxyz'' ''ABCDEFGHIJKLMNOPQRSTUVWXYZ'') c of
        None \<Rightarrow> c
      | Some u \<Rightarrow> u)"

definition lower_char :: "char \<Rightarrow> char" where
  "lower_char c =
     (case map_of (zip ''ABCDEFGHIJKLMNOPQRSTUVWXYZ'' ''abcdefghijklmnopqrstuvwxyz'') c of
        None \<Rightarrow> c
      | Some l \<Rightarrow> l)"

definition toUpperCase :: "string \<Rightarrow> string" where
  "toUpperCase s = map upper_char s"


definition digit_char :: "nat \<Rightarrow> char" where
  "digit_char d = ''0123456789'' ! d"

text \<open>\<open>Number.prototype.toString\<close> on a non-negative integer below \<open>10^21\<close>.\<close>

fun dec_str :: "nat \<Rightarrow> string" where
  "dec_str n = (if n < 10 then [digit_char n] else dec_str (n div 10) @ [digit_char (n mod 10)])"

declare dec_str.simps [simp del]

section \<open>AI-order: in-memory state and configuration (server.js, lines 76-165)\<close>

type_synonym time = int

record config =
  STORE_ADDRESS :: string
  KFD_MPT_ISSUANCE_ID :: string
  RLUSD_ISSUER :: string
  RLUSD_CURRENCY :: string
  ORDER_TTL_MS :: int
  CREATE_ORDER_CACHE_MS :: int
  TRUSTLINE_CACHE_MS :: int
  TX_CACHE_TTL :: int

datatype payment_method = Mpt | Xrp | Rlusd

text \<open>
  An order line \<open>{product_id, qty}\<close>; quantities are natural numbers, a missing
  quantity is \<open>None\<close>.
\<close>

record item =
  product_id :: nat
  qty :: "nat option"

datatype order_status = Created | Completed

record order =
  o_items :: "item list"
  o_total :: nat
  o_buyer :: "string option"
  o_paymentMethod :: payment_method
  o_status :: order_status
  o_createdAt :: time
  o_completedAt :: "time option"
  o_txid :: "string option"
  o_orderKey :: string

record nft =
  nft_name :: string
  nft_image :: "string option"
  nft_id :: string

record accept_qr =
  aq_product :: string
  aq_qr :: "string option"
  aq_url :: "string option"

text \<open>The JSON bodies that \<open>/buy/status\<close> sends.\<close>

datatype status_body =
    Pending
  | CompletedOrExpired
  | ErrorOnly string
  | StatusError string
  | Success payment_method "nft list" "accept_qr list"

record http_response =
  hr_code :: nat
  hr_body :: status_body
  hr_cachedAt :: "time option"

record create_response =
  total_price :: nat
  cr_payment_method :: payment_method
  xumm_qr :: "string option"
  xumm_payload_url :: "string option"
  payload_uuid :: string

record trustline_status =
  tl_exists :: bool
  tl_peer_authorized :: bool
  tl_authorized :: bool
  tl_checkedAt :: time

text \<open>
  The module's maps and sets. A promise stored in \<open>inflight\<close> or
  \<open>createOrderInflight\<close> is represented by its key: the handlers only test the key's
  presence and await the promise.
\<close>

record shop =
  processedTx :: "string set"
  txCache :: "string \<rightharpoonup> (status_body \<times> time)"
  inflight :: "string set"
  ordersByPaymentPayload :: "string \<rightharpoonup> order"
  completedByPayload :: "string \<rightharpoonup> (status_body \<times> time)"
  createOrderInflight :: "string set"
  createOrderCache :: "string \<rightharpoonup> (create_response \<times> time)"
  trustlineStatusCache :: "string \<rightharpoonup> trustline_status"

text \<open>The outcome of an awaited call to an external service.\<close>

datatype 'a awaited = Rejected string | Resolved 'a

subsection \<open>Utilities (lines 27-68, 168-207)\<close>

definition safeUpper :: "string option \<Rightarrow> string" where
  "safeUpper s = toUpperCase (trim (case s of None \<Rightarrow> [] | Some t \<Rightarrow> t))"











subsection \<open>verifyPaymentTx (lines 302-428)\<close>

record amount_obj =
  ao_currency :: "string option"
  ao_issuer :: "string option"
  ao_value :: "string option"
  ao_mpt_issuance_id :: "string option"

datatype amount = AmtString string | AmtObject amount_obj

text \<open>The fields of the ledger's answer to \<open>tx\<close> that the verifier reads.\<close>

record ledger_tx =
  lt_validated :: "bool option"
  lt_TransactionType :: "string option"
  lt_Account :: "string option"
  lt_Destination :: "string option"
  lt_TransactionResult :: "string option"
  lt_Amount :: "amount option"

datatype verdict = VOk | VFail string

definition or_empty :: "string option \<Rightarrow> string" where
  "or_empty v = (case v of None \<Rightarrow> [] | Some t \<Rightarrow> t)"

text \<open>\<open>xrpl.xrpToDrops\<close> on the decimal string of a whole number of XRP.\<close>

definition xrpToDrops :: "nat \<Rightarrow> string" where
  "xrpToDrops xrp = dec_str (xrp * 1000000)"

definition verifyPaymentTx ::
  "config \<Rightarrow> ledger_tx option awaited \<Rightarrow> string option \<Rightarrow> nat \<Rightarrow> payment_method \<Rightarrow> verdict" where
  "verifyPaymentTx cfg txResp expectedBuyer expectedTotal paymentMethod =
     (case txResp of
        Rejected e \<Rightarrow> VFail ''not_validated_yet''
      | Resolved None \<Rightarrow> VFail ''tx_not_found''
      | Resolved (Some tx) \<Rightarrow>
          if lt_validated tx = Some False then VFail ''not_validated_yet''
          else if lt_TransactionType tx \<noteq> Some ''Payment'' then VFail ''not_payment''
          else if Some (trim (or_empty (lt_Account tx))) \<noteq> expectedBuyer then VFail ''buyer_mismatch''
          else if trim (or_empty (lt_Destination tx)) \<noteq> STORE_ADDRESS cfg
            then VFail ''destination_mismatch''
          else if \<not> truthy_str (lt_TransactionResult tx) then VFail ''not_validated_yet''
          else if lt_TransactionResult tx \<noteq> Some ''tesSUCCESS'' then VFail ''not_success''
          else (case paymentMethod of
              Xrp \<Rightarrow>
                (case lt_Amount tx of
                   Some (AmtString amt) \<Rightarrow>
                     if amt \<noteq> xrpToDrops expectedTotal then VFail ''amount_mismatch'' else VOk
                 | _ \<Rightarrow> VFail ''amount_not_xrp_string'')
            | Rlusd \<Rightarrow>
                (case lt_Amount tx of
                   Some (AmtObject amt) \<Rightarrow>
                     if safeUpper (ao_currency amt) \<noteq> safeUpper (Some (RLUSD_CURRENCY cfg))
                       then VFail ''currency_mismatch''
                     else if trim (or_empty (ao_issuer amt)) \<noteq> RLUSD_ISSUER cfg
                       then VFail ''issuer_mismatch''
                     else if or_empty (ao_value amt) \<noteq> dec_str expectedTotal
                       then VFail ''amount_mismatch''
                     else VOk
                 | _ \<Rightarrow> VFail ''amount_not_token_object'')
            | Mpt \<Rightarrow>
                (case lt_Amount tx of
                   Some (AmtObject amt) \<Rightarrow>
                     if safeUpper (ao_mpt_issuance_id amt) \<noteq> KFD_MPT_ISSUANCE_ID cfg
                       then VFail ''issuance_mismatch''
                     else if or_empty (ao_value amt) \<noteq> dec_str expectedTotal
                       then VFail ''amount_mismatch''
                     else VOk
                 | _ \<Rightarrow> VFail ''amount_not_object'')))"

subsection \<open>checkStoreRlusdTrustLine (lines 238-281)\<close>


subsection \<open>POST /create-order (lines 522-635)\<close>











subsection \<open>GET /buy/status (lines 638-920)\<close>

text \<open>What \<open>xumm.payload.get\<close> resolves to, as far as the handler reads it.\<close>

record xumm_payload =
  xp_has_meta :: bool
  xp_signed :: bool
  xp_account :: "string option"
  xp_txid :: "string option"

text \<open>
  The answers of the external services to one poll: the wallet payload, the ledger
  connection, the ledger's answer to \<open>tx\<close>, and what the mint loop collected
  (minting, offers and accept payloads are calls to the ledger and to the wallet service;
  the loop catches every error of an item).
\<close>

record buy_env =
  be_payload :: "xumm_payload option awaited"
  be_connect :: "unit awaited"
  be_tx :: "ledger_tx option awaited"
  be_mint :: "nft list \<times> accept_qr list"

text \<open>The external calls a poll made, in order.\<close>

datatype effect = PayloadGet string | VerifyTx string | MintFor string

definition respond :: "nat \<Rightarrow> status_body \<Rightarrow> http_response" where
  "respond c b = \<lparr>hr_code = c, hr_body = b, hr_cachedAt = None\<rparr>"

text \<open>The job: connect, verify, and after a successful verification mint.\<close>

definition buy_job ::
  "config \<Rightarrow> buy_env \<Rightarrow> order \<Rightarrow> string \<Rightarrow> shop \<Rightarrow> status_body awaited \<times> shop \<times> effect list" where
  "buy_job cfg env ord txid s =
     (case be_connect env of
        Rejected e \<Rightarrow> (Rejected e, s, [])
      | Resolved _ \<Rightarrow>
          (case verifyPaymentTx cfg (be_tx env) (o_buyer ord) (o_total ord) (o_paymentMethod ord) of
             VFail reason \<Rightarrow>
               if reason = ''not_validated_yet'' then (Resolved Pending, s, [VerifyTx txid])
               else (Resolved (StatusError (''Payment verification failed: '' @ reason)), s,
                     [VerifyTx txid])
           | VOk \<Rightarrow>
               (Resolved (Success (o_paymentMethod ord) (fst (be_mint env)) (snd (be_mint env))),
                s\<lparr>processedTx := insert txid (processedTx s)\<rparr>,
                [VerifyTx txid, MintFor txid])))"

text \<open>
  Lines 890-915: the promise of the job is stored in \<open>inflight\<close> and awaited; a
  rejected promise leaves the handler through its \<open>catch\<close>, past the
  \<open>inflight.delete\<close>. \<open>now\<close> is the clock when the job has finished; the patched
  \<open>txCache.set\<close> (lines 1087-1088) stamps the entry with it.
\<close>

definition buy_finish ::
  "time \<Rightarrow> string \<Rightarrow> string \<Rightarrow> order \<Rightarrow> status_body awaited \<times> shop \<times> effect list
     \<Rightarrow> http_response \<times> shop \<times> effect list" where
  "buy_finish now uuid txid ord job =
     (let result = fst job;
          s3 = (fst (snd job))\<lparr>inflight := insert txid (inflight (fst (snd job)))\<rparr>;
          effs = PayloadGet uuid # snd (snd job)
      in case result of
           Rejected e \<Rightarrow> (respond 500 (StatusError e), s3, effs)
         | Resolved res \<Rightarrow>
             if res = Pending then (respond 200 Pending, s3\<lparr>inflight := inflight s3 - {txid}\<rparr>, effs)
             else
               let s4 = s3\<lparr>txCache := (txCache s3)(txid \<mapsto> (res, now)),
                           inflight := inflight s3 - {txid}\<rparr>
               in (case res of
                     Success m nfts qrs \<Rightarrow>
                       (respond 200 res,
                        s4\<lparr>ordersByPaymentPayload := (ordersByPaymentPayload s4)(uuid \<mapsto>
                               ord\<lparr>o_status := Completed, o_completedAt := Some now\<rparr>),
                           completedByPayload := (completedByPayload s4)(uuid \<mapsto> (res, now))\<rparr>,
                        effs)
                   | _ \<Rightarrow> (respond 200 res, s4, effs)))"

text \<open>Lines 677-682: the cache, in-flight and processed guards in front of the job.\<close>

definition buy_lookup ::
  "config \<Rightarrow> time \<Rightarrow> buy_env \<Rightarrow> string \<Rightarrow> string \<Rightarrow> order \<Rightarrow> shop
     \<Rightarrow> http_response \<times> shop \<times> effect list" where
  "buy_lookup cfg now env uuid txid ord s =
     (case txCache s txid of
        Some (cached, ts) \<Rightarrow>
          (\<lparr>hr_code = 200, hr_body = cached, hr_cachedAt = Some ts\<rparr>, s, [PayloadGet uuid])
      | None \<Rightarrow>
          if txid \<in> inflight s then (respond 200 Pending, s, [PayloadGet uuid])
          else if txid \<in> processedTx s then (respond 200 Pending, s, [PayloadGet uuid])
          else buy_finish now uuid txid ord (buy_job cfg env ord txid s))"

text \<open>Lines 663-675, once the payload is signed and has a transaction id.\<close>

definition buy_signed ::
  "config \<Rightarrow> time \<Rightarrow> buy_env \<Rightarrow> string \<Rightarrow> order \<Rightarrow> xumm_payload \<Rightarrow> shop
     \<Rightarrow> http_response \<times> shop \<times> effect list" where
  "buy_signed cfg now env uuid ord0 payload s =
     (let buyer = xp_account payload;
          txid = the (xp_txid payload);
          ord1 = (if \<not> truthy_str (o_buyer ord0) then ord0\<lparr>o_buyer := buyer\<rparr> else ord0);
          ord2 = (if \<not> truthy_str (o_txid ord1) then ord1\<lparr>o_txid := Some txid\<rparr> else ord1);
          s1 = s\<lparr>ordersByPaymentPayload := (ordersByPaymentPayload s)(uuid \<mapsto> ord2)\<rparr>
      in if buyer \<noteq> o_buyer ord2 then
           (respond 400 (StatusError ''Buyer mismatch for this order''), s1, [PayloadGet uuid])
         else buy_lookup cfg now env uuid txid ord2 s1)"

text \<open>One poll, run without another handler in between.\<close>

definition buy_status ::
  "config \<Rightarrow> time \<Rightarrow> buy_env \<Rightarrow> string \<Rightarrow> shop \<Rightarrow> http_response \<times> shop \<times> effect list" where
  "buy_status cfg now env uuid s =
     (case completedByPayload s uuid of
        Some (result, completedAt) \<Rightarrow> (respond 200 result, s, [])
      | None \<Rightarrow>
          (case ordersByPaymentPayload s uuid of
             None \<Rightarrow> (respond 200 CompletedOrExpired, s, [])
           | Some ord0 \<Rightarrow>
               if o_status ord0 = Completed then (respond 200 CompletedOrExpired, s, [])
               else
                 (case be_payload env of
                    Rejected e \<Rightarrow> (respond 500 (StatusError e), s, [PayloadGet uuid])
                  | Resolved None \<Rightarrow>
                      (respond 404 (ErrorOnly ''Payload not found''), s, [PayloadGet uuid])
                  | Resolved (Some payload) \<Rightarrow>
                      if \<not> xp_has_meta payload then
                        (respond 404 (ErrorOnly ''Payload not found''), s, [PayloadGet uuid])
                      else if \<not> xp_signed payload then (respond 200 Pending, s, [PayloadGet uuid])
                      else if \<not> truthy_str (xp_txid payload) then
                        (respond 500 (StatusError ''No txid''), s, [PayloadGet uuid])
                      else buy_signed cfg now env uuid ord0 payload s)))"

text \<open>A sequence of polls of one payload, each with its clock and its answers.\<close>

fun buy_polls :: "config \<Rightarrow> (time \<times> buy_env) list \<Rightarrow> string \<Rightarrow> shop \<Rightarrow> shop" where
  "buy_polls cfg [] uuid s = s"
| "buy_polls cfg ((now, env) # rest) uuid s =
     buy_polls cfg rest uuid (fst (snd (buy_status cfg now env uuid s)))"

text \<open>The poll sees a payload signed by the account \<open>a\<close>.\<close>

definition signed_by :: "buy_env \<Rightarrow> string option \<Rightarrow> bool" where
  "signed_by env a =
     (case be_payload env of
        Resolved (Some p) \<Rightarrow> xp_has_meta p \<and> xp_signed p \<and> xp_account p = a
      | _ \<Rightarrow> False)"

text \<open>The intent is not completed and its payer is pinned to \<open>b\<close>.\<close>

definition open_for :: "shop \<Rightarrow> string \<Rightarrow> string \<Rightarrow> bool" where
  "open_for s uuid b =
     (completedByPayload s uuid = None \<and>
      (case ordersByPaymentPayload s uuid of
         None \<Rightarrow> False
       | Some ord \<Rightarrow> o_status ord = Created \<and> o_buyer ord = Some b))"

subsection \<open>TTL sweep (lines 1040-1084)\<close>

text \<open>Deleting the entries of a map that satisfy a test.\<close>

definition delete_where :: "('v \<Rightarrow> bool) \<Rightarrow> ('k \<rightharpoonup> 'v) \<Rightarrow> ('k \<rightharpoonup> 'v)" where
  "delete_where p m = (\<lambda>k. case m k of None \<Rightarrow> None | Some v \<Rightarrow> if p v then None else Some v)"

definition sweep :: "config \<Rightarrow> time \<Rightarrow> shop \<Rightarrow> shop" where
  "sweep cfg now s =
     s\<lparr>completedByPayload :=
         delete_where (\<lambda>(result, completedAt). completedAt \<noteq> 0 \<and> now - completedAt > ORDER_TTL_MS cfg)
           (completedByPayload s),
       ordersByPaymentPayload :=
         delete_where (\<lambda>ord. o_status ord = Completed \<and>
                            (case o_completedAt ord of
                               None \<Rightarrow> False
                             | Some t \<Rightarrow> t \<noteq> 0 \<and> now - t > ORDER_TTL_MS cfg))
           (ordersByPaymentPayload s),
       createOrderCache :=
         delete_where (\<lambda>(response, createdAt). createdAt \<noteq> 0 \<and> now - createdAt > CREATE_ORDER_CACHE_MS cfg)
           (createOrderCache s),
       trustlineStatusCache :=
         delete_where (\<lambda>entry. tl_checkedAt entry \<noteq> 0 \<and> now - tl_checkedAt entry > TRUSTLINE_CACHE_MS cfg)
           (trustlineStatusCache s),
       txCache :=
         (if TX_CACHE_TTL cfg > 0 then
            delete_where (\<lambda>(val, ts). ts \<noteq> 0 \<and> now - ts > TX_CACHE_TTL cfg) (txCache s)
          else txCache s)\<rparr>"

subsection \<open>A sample shop\<close>

definition sample_cfg :: config where
  "sample_cfg = \<lparr>STORE_ADDRESS = ''rStore'', KFD_MPT_ISSUANCE_ID = ''00AB'',
     RLUSD_ISSUER = ''rRlusdIssuer'', RLUSD_CURRENCY = ''RLUSD'', ORDER_TTL_MS = 600000,
     CREATE_ORDER_CACHE_MS = 60000, TRUSTLINE_CACHE_MS = 30000, TX_CACHE_TTL = 1800000\<rparr>"

definition sample_order :: order where
  "sample_order = \<lparr>o_items = [\<lparr>product_id = 2, qty = Some 1\<rparr>], o_total = 2,
     o_buyer = Some ''rBuyer'', o_paymentMethod = Xrp, o_status = Created, o_createdAt = 0,
     o_completedAt = None, o_txid = None, o_orderKey = ''xrp|rBuyer|[{\"product_id\":2,\"qty\":1}]''\<rparr>"

definition empty_shop :: shop where
  "empty_shop = \<lparr>processedTx = {}, txCache = Map.empty, inflight = {},
     ordersByPaymentPayload = Map.empty, completedByPayload = Map.empty,
     createOrderInflight = {}, createOrderCache = Map.empty, trustlineStatusCache = Map.empty\<rparr>"

text \<open>One open order, created by the account \<open>rBuyer\<close>, under the payload \<open>U\<close>.\<close>

definition sample_shop :: shop where
  "sample_shop = empty_shop\<lparr>ordersByPaymentPayload := [''U'' \<mapsto> sample_order]\<rparr>"

text \<open>
  A validated payment of the ordered amount by the account \<open>from\<close> to the account
  \<open>dest\<close>, and a poll that finds the payload signed by \<open>signer\<close> with that payment
  as its transaction \<open>T\<close>.
\<close>

definition sample_tx :: "string \<Rightarrow> string \<Rightarrow> ledger_tx" where
  "sample_tx from dest = \<lparr>lt_validated = Some True, lt_TransactionType = Some ''Payment'',
     lt_Account = Some from, lt_Destination = Some dest,
     lt_TransactionResult = Some ''tesSUCCESS'', lt_Amount = Some (AmtString ''2000000'')\<rparr>"

definition sample_env :: "string \<Rightarrow> string \<Rightarrow> string \<Rightarrow> buy_env" where
  "sample_env signer from dest =
     \<lparr>be_payload = Resolved (Some \<lparr>xp_has_meta = True, xp_signed = True,
                                    xp_account = Some signer, xp_txid = Some ''T''\<rparr>),
      be_connect = Resolved (),
      be_tx = Resolved (Some (sample_tx from dest)),
      be_mint = ([\<lparr>nft_name = ''Latte'', nft_image = None, nft_id = ''000A''\<rparr>],
                 [\<lparr>aq_product = ''Latte'', aq_qr = None, aq_url = None\<rparr>])\<rparr>"




section \<open>Smart-Locker: burn redemption (server.js, lines 472-582)\<close>

text \<open>An entry of \<open>redeems\<close>: burn payload uuid to account, token and unlock mark.\<close>

record redeem =
  rd_account :: "string option"
  rd_nftokenId :: "string option"
  rd_unlocked :: bool

type_synonym redeems = "string \<rightharpoonup> redeem"

text \<open>
  What the handler reads of the wallet payload; \<open>bp_txid\<close> is
  \<open>response.txid || meta.txid || application.txid || null\<close>.
\<close>

record burn_payload =
  bp_resolved :: bool
  bp_signed :: bool
  bp_cancelled :: bool
  bp_txid :: "string option"

text \<open>
  The answers to one poll: the wallet payload and the ledger's \<open>account_nfts\<close> for the
  holder, as the list of the \<open>NFTokenID\<close> fields of the tokens it holds (\<open>Rejected\<close>
  when connecting or the request throws).
\<close>

record redeem_env =
  re_payload :: "burn_payload awaited"
  re_account_nfts :: "string option list awaited"

record redeem_response =
  rr_resolved :: bool
  rr_signed :: bool
  rr_cancelled :: bool
  rr_txid :: "string option"
  rr_burnedOnChain :: bool
  rr_chainError :: "string option"
  rr_unlocked :: bool
  rr_unlockResult :: "string option"

datatype redeem_http = RedeemError nat string | RedeemOk redeem_response

text \<open>
  \<open>rr_unlockResult = Some ''OPEN''\<close> stands for the unlock side effect: the
  \<open>[OPEN]\<close> line on the console and \<open>unlockResult = {ok: true, message: "OPEN"}\<close>.
\<close>

definition redeem_status :: "redeem_env \<Rightarrow> string \<Rightarrow> redeems \<Rightarrow> redeem_http \<times> redeems" where
  "redeem_status env uuid0 rs =
     (let burnUuid = trim uuid0 in
      if burnUuid = [] then (RedeemError 400 ''missing uuid'', rs)
      else
        case re_payload env of
          Rejected e \<Rightarrow> (RedeemError 500 e, rs)
        | Resolved p \<Rightarrow>
            let signed = bp_signed p;
                txid = (if truthy_str (bp_txid p) then bp_txid p else None);
                r = (case rs burnUuid of
                       None \<Rightarrow> \<lparr>rd_account = None, rd_nftokenId = None, rd_unlocked = False\<rparr>
                     | Some r0 \<Rightarrow> r0);
                chain =
                  (if signed \<and> truthy_str (rd_account r) \<and> truthy_str (rd_nftokenId r) then
                     (case re_account_nfts env of
                        Resolved nfts \<Rightarrow>
                          let stillHas = list_ex (\<lambda>n. toUpperCase (or_empty n)
                                                      = toUpperCase (the (rd_nftokenId r))) nfts
                          in (\<not> stillHas, None)
                      | Rejected e \<Rightarrow> (False, Some e))
                   else (False, None));
                burnedOnChain = fst chain;
                chainError = snd chain;
                fire = (((signed \<and> txid \<noteq> None) \<or> burnedOnChain) \<and> \<not> rd_unlocked r);
                rs' = (if fire then rs(burnUuid \<mapsto> r\<lparr>rd_unlocked := True\<rparr>) else rs)
            in (RedeemOk \<lparr>rr_resolved = bp_resolved p, rr_signed = signed,
                           rr_cancelled = bp_cancelled p, rr_txid = txid,
                           rr_burnedOnChain = burnedOnChain, rr_chainError = chainError,
                           rr_unlocked = (case rs' burnUuid of None \<Rightarrow> False | Some r1 \<Rightarrow> rd_unlocked r1),
                           rr_unlockResult = (if fire then Some ''OPEN'' else None)\<rparr>, rs'))"

text \<open>
  A redemption of the token \<open>00AB\<close> by the account \<open>rHolder\<close>, and a poll that finds
  the burn payload signed with a transaction id while the ledger still lists the token
  in the holder's inventory.
\<close>

definition held_redeems :: redeems where
  "held_redeems = [''B'' \<mapsto> \<lparr>rd_account = Some ''rHolder'', rd_nftokenId = Some ''00ab'',
                                rd_unlocked = False\<rparr>]"

definition held_env :: redeem_env where
  "held_env = \<lparr>re_payload = Resolved \<lparr>bp_resolved = True, bp_signed = True, bp_cancelled = False,
                                        bp_txid = Some ''T''\<rparr>,
                re_account_nfts = Resolved [Some ''00FF'', Some ''00AB'']\<rparr>"

section \<open>JavaScript numbers\<close>

text \<open>
  A JavaScript number is an IEEE 754 binary64 value. A finite one is written here as a
  fraction \<open>Fin n d\<close>, the rational \<open>n / d\<close> with \<open>d > 0\<close>; the finite values are
  the rationals \<open>m * 2^q\<close> with \<open>\<bar>m\<bar> < 2^53\<close> and \<open>- 1074 \<le> q \<le> 971\<close>. The two
  zeros are not told apart (the code only compares with zero).
\<close>

datatype jsnum = NaN | PosInf | NegInf | Fin int nat

definition num_value :: "jsnum \<Rightarrow> rat option" where
  "num_value x = (case x of Fin n d \<Rightarrow> Some (of_int n / of_nat d) | _ \<Rightarrow> None)"

text \<open>The number of binary digits of a natural number.\<close>

fun bit_length :: "nat \<Rightarrow> nat" where
  "bit_length n = (if n = 0 then 0 else Suc (bit_length (n div 2)))"

declare bit_length.simps [simp del]

text \<open>
  \<open>\<lfloor>log\<^sub>2 (a / d)\<rfloor>\<close> for positive \<open>a\<close> and \<open>d\<close>: the difference \<open>k\<close> of the bit lengths,
  or one less when \<open>a / d < 2^k\<close>.
\<close>

definition ilog2_adjust :: "nat \<Rightarrow> nat \<Rightarrow> int \<Rightarrow> int" where
  "ilog2_adjust a d k =
     (if (if 0 \<le> k then d * 2 ^ nat k \<le> a else d \<le> a * 2 ^ nat (- k)) then k else k - 1)"

definition ilog2 :: "nat \<Rightarrow> nat \<Rightarrow> int" where
  "ilog2 a d = ilog2_adjust a d (int (bit_length a) - int (bit_length d))"

text \<open>The integer nearest to \<open>n / d\<close>, a tie going to the even one.\<close>

definition nearest_even :: "nat \<Rightarrow> nat \<Rightarrow> nat \<Rightarrow> nat" where
  "nearest_even f r d =
     (if 2 * r < d then f else if d < 2 * r then f + 1 else if even f then f else f + 1)"

definition round_half_even :: "nat \<Rightarrow> nat \<Rightarrow> nat" where
  "round_half_even n d = nearest_even (n div d) (n mod d) d"

text \<open>
  Rounding the rational \<open>n / d\<close> to the nearest binary64 value, ties to even: 53
  significant bits (\<open>m\<close>), the exponent \<open>q\<close> not below that of the subnormals, and
  infinity from \<open>2^1024\<close> on. Every arithmetic operation and every conversion from a
  decimal string rounds so.
\<close>

text \<open>The fraction \<open>m / d\<close> for a power of two \<open>d\<close>, in lowest terms.\<close>

fun lowest_terms :: "nat \<Rightarrow> nat \<Rightarrow> nat \<times> nat" where
  "lowest_terms m d = (if d \<le> 1 \<or> odd m then (m, d) else lowest_terms (m div 2) (d div 2))"

declare lowest_terms.simps [simp del]

definition signed_fin :: "bool \<Rightarrow> nat \<times> nat \<Rightarrow> jsnum" where
  "signed_fin neg md = Fin (if neg then - int (fst md) else int (fst md)) (snd md)"

definition rd_result :: "bool \<Rightarrow> int \<Rightarrow> nat \<Rightarrow> jsnum" where
  "rd_result neg q m =
     (if 0 \<le> q \<and> 2 ^ 1024 \<le> m * 2 ^ nat q then (if neg then NegInf else PosInf)
      else if 0 \<le> q then signed_fin neg (m * 2 ^ nat q, 1)
      else signed_fin neg (lowest_terms m (2 ^ nat (- q))))"

definition rd_scaled :: "bool \<Rightarrow> nat \<Rightarrow> nat \<Rightarrow> int \<Rightarrow> jsnum" where
  "rd_scaled neg a d q =
     rd_result neg q
       (if 0 \<le> q then round_half_even a (d * 2 ^ nat q) else round_half_even (a * 2 ^ nat (- q)) d)"

definition rd :: "int \<Rightarrow> nat \<Rightarrow> jsnum" where
  "rd n d =
     (if n = 0 then Fin 0 1
      else rd_scaled (n < 0) (nat \<bar>n\<bar>) d (max (ilog2 (nat \<bar>n\<bar>) d - 52) (- 1074)))"

text \<open>
  \<open>a / c\<close> and \<open>a * c\<close> for a positive whole number \<open>c\<close>, and \<open>Math.floor\<close>.
\<close>

definition js_div :: "jsnum \<Rightarrow> nat \<Rightarrow> jsnum" where
  "js_div a c = (case a of Fin n d \<Rightarrow> rd n (d * c) | other \<Rightarrow> other)"

definition js_mul :: "jsnum \<Rightarrow> nat \<Rightarrow> jsnum" where
  "js_mul a c = (case a of Fin n d \<Rightarrow> rd (n * int c) d | other \<Rightarrow> other)"

definition Math_floor :: "jsnum \<Rightarrow> jsnum" where
  "Math_floor a = (case a of Fin n d \<Rightarrow> Fin (n div int d) 1 | other \<Rightarrow> other)"

text \<open>\<open>Number.isFinite(a) && a > 0\<close>.\<close>

definition finite_positive :: "jsnum \<Rightarrow> bool" where
  "finite_positive a = (case a of Fin n d \<Rightarrow> 0 < n | _ \<Rightarrow> False)"

subsection \<open>\<open>Number(string)\<close>\<close>

definition digit_table :: "(char \<times> nat) list" where
  "digit_table = zip ''0123456789abcdef'' [0, 1, 2, 3, 4, 5, 6, 7, 8, 9, 10, 11, 12, 13, 14, 15]"

definition is_radix_digit :: "nat \<Rightarrow> char \<Rightarrow> bool" where
  "is_radix_digit base c =
     (case map_of digit_table (lower_char c) of None \<Rightarrow> False | Some d \<Rightarrow> d < base)"

definition is_digit :: "char \<Rightarrow> bool" where
  "is_digit c = (c \<in> set ''0123456789'')"

definition digit_val :: "char \<Rightarrow> nat" where
  "digit_val c = (case map_of digit_table (lower_char c) of None \<Rightarrow> 0 | Some d \<Rightarrow> d)"

definition digits_val :: "nat \<Rightarrow> string \<Rightarrow> nat" where
  "digits_val base ds = foldl (\<lambda>a c. base * a + digit_val c) 0 ds"

text \<open>The exponent part of a decimal literal: nothing, or \<open>e\<close>, a sign and digits.\<close>

definition parse_exponent :: "string \<Rightarrow> int option" where
  "parse_exponent r =
     (if r = [] then Some 0
      else if hd r = CHR ''e'' \<or> hd r = CHR ''E'' then
        let t = tl r;
            neg = (t \<noteq> [] \<and> hd t = CHR ''-'');
            ds = (if t \<noteq> [] \<and> (hd t = CHR ''+'' \<or> hd t = CHR ''-'') then tl t else t)
        in if ds \<noteq> [] \<and> list_all is_digit ds
           then Some (if neg then - int (digits_val 10 ds) else int (digits_val 10 ds))
           else None
      else None)"

text \<open>
  An unsigned decimal literal: digits, a fraction and an exponent, with a digit somewhere.
  The result is the fraction it denotes.
\<close>

definition parse_decimal :: "string \<Rightarrow> (nat \<times> nat) option" where
  "parse_decimal s =
     (let ip = takeWhile is_digit s;
          r1 = dropWhile is_digit s;
          dot = (r1 \<noteq> [] \<and> hd r1 = CHR ''.'');
          fp = (if dot then takeWhile is_digit (tl r1) else []);
          r2 = (if dot then dropWhile is_digit (tl r1) else r1)
      in if ip = [] \<and> fp = [] then None
         else case parse_exponent r2 of
                None \<Rightarrow> None
              | Some e \<Rightarrow>
                  let k = e - int (length fp); n = digits_val 10 (ip @ fp)
                  in if 0 \<le> k then Some (n * 10 ^ nat k, 1) else Some (n, 10 ^ nat (- k)))"

text \<open>A hexadecimal, octal or binary integer literal.\<close>

definition parse_radix :: "string \<Rightarrow> nat option" where
  "parse_radix s =
     (case s of
        z # x # ds \<Rightarrow>
          let base = (if x = CHR ''x'' \<or> x = CHR ''X'' then 16
                      else if x = CHR ''o'' \<or> x = CHR ''O'' then 8
                      else if x = CHR ''b'' \<or> x = CHR ''B'' then 2 else (0::nat))
          in if z = CHR ''0'' \<and> base \<noteq> 0 \<and> ds \<noteq> [] \<and> list_all (is_radix_digit base) ds
             then Some (digits_val base ds) else None
      | _ \<Rightarrow> None)"

definition Number_string :: "string \<Rightarrow> jsnum" where
  "Number_string s0 =
     (let s = trim s0 in
      if s = [] then Fin 0 1
      else
        let neg = (hd s = CHR ''-'');
            unsigned = (if hd s = CHR ''+'' \<or> hd s = CHR ''-'' then tl s else s)
        in if unsigned = ''Infinity'' then (if neg then NegInf else PosInf)
           else case parse_decimal unsigned of
                  Some (n, d) \<Rightarrow> rd (if neg then - int n else int n) d
                | None \<Rightarrow> (case parse_radix s of Some n \<Rightarrow> rd (int n) 1 | None \<Rightarrow> NaN))"

section \<open>MPT-Issuer: the amount to issue (server.mjs, lines 199-225)\<close>

record paid_obj =
  po_currency :: "string option"
  po_value :: "string option"

datatype paid = PaidString string | PaidObject paid_obj

record tx_fields =
  tf_Account :: "string option"
  tf_DeliverMax :: "paid option"
  tf_SendMax :: "paid option"
  tf_Amount :: "paid option"

record tx_meta =
  tm_delivered_amount :: "paid option"
  tm_DeliveredAmount :: "paid option"

text \<open>
  A validated transaction as the ledger returns it: the transaction fields under
  \<open>tx_json\<close> or, in the older format, at the top level (\<open>vt_fields\<close>).
\<close>

record validated_tx =
  vt_validated :: bool
  vt_tx_json :: "tx_fields option"
  vt_fields :: tx_fields
  vt_meta :: "tx_meta option"

definition tx_json_of :: "validated_tx \<Rightarrow> tx_fields" where
  "tx_json_of validatedTx = (case vt_tx_json validatedTx of None \<Rightarrow> vt_fields validatedTx | Some j \<Rightarrow> j)"

text \<open>\<open>a ?? b\<close>, and \<open>if (a == null) a = b\<close>: the first value that is neither null nor undefined.\<close>

definition or_else :: "'a option \<Rightarrow> 'a option \<Rightarrow> 'a option" where
  "or_else a b = (case a of None \<Rightarrow> b | Some x \<Rightarrow> Some x)"

definition meta_of :: "validated_tx \<Rightarrow> tx_meta" where
  "meta_of validatedTx =
     (case vt_meta validatedTx of
        None \<Rightarrow> \<lparr>tm_delivered_amount = None, tm_DeliveredAmount = None\<rparr>
      | Some m \<Rightarrow> m)"

definition paid_of :: "validated_tx \<Rightarrow> paid option" where
  "paid_of validatedTx =
     or_else (tm_delivered_amount (meta_of validatedTx))
       (or_else (tm_DeliveredAmount (meta_of validatedTx))
          (or_else (tf_DeliverMax (tx_json_of validatedTx))
             (or_else (tf_SendMax (tx_json_of validatedTx)) (tf_Amount (tx_json_of validatedTx)))))"

definition calcMptToSendFromPayment :: "validated_tx \<Rightarrow> jsnum" where
  "calcMptToSendFromPayment validatedTx =
     (case paid_of validatedTx of
        Some (PaidString str) \<Rightarrow>
          (let drops = Number_string str
           in if \<not> finite_positive drops then Fin 0 1
              else Math_floor (js_mul (js_div drops 1000000) 2))
      | Some (PaidObject obj) \<Rightarrow>
          (let cur = toUpperCase (or_empty (po_currency obj));
               v = (case po_value obj of None \<Rightarrow> NaN | Some str \<Rightarrow> Number_string str)
           in if \<not> finite_positive v then Fin 0 1
              else if cur = ''RLUSD'' then Math_floor (js_mul v 100)
              else Fin 0 1)
      | None \<Rightarrow> Fin 0 1)"

text \<open>A validated payment whose \<open>meta.delivered_amount\<close> is the given amount.\<close>

definition delivered :: "paid \<Rightarrow> validated_tx" where
  "delivered amt =
     \<lparr>vt_validated = True,
      vt_tx_json = Some \<lparr>tf_Account = Some ''rPayer'', tf_DeliverMax = Some amt, tf_SendMax = None,
                         tf_Amount = None\<rparr>,
      vt_fields = \<lparr>tf_Account = None, tf_DeliverMax = None, tf_SendMax = None, tf_Amount = None\<rparr>,
      vt_meta = Some \<lparr>tm_delivered_amount = Some amt, tm_DeliveredAmount = None\<rparr>\<rparr>"

definition rlusd :: "string \<Rightarrow> paid" where
  "rlusd v = PaidObject \<lparr>po_currency = Some ''RLUSD'', po_value = Some v\<rparr>"

section \<open>MPT-Issuer: the ledger and the issuer's actions (server.mjs, lines 247-500)\<close>

definition str_of :: "string option \<Rightarrow> string" where
  "str_of v = (case v of None \<Rightarrow> ''null'' | Some t \<Rightarrow> t)"

definition mustHexN :: "string \<Rightarrow> string option \<Rightarrow> nat \<Rightarrow> string + string" where
  "mustHexN name v n =
     (let trimmed = trim (or_empty v) in
      if length trimmed = n \<and> list_all (is_radix_digit 16) trimmed then Inr (toUpperCase trimmed)
      else Inl (name @ ''_INVALID_'' @ dec_str n @ ''HEX''))"

definition must48hex :: "string \<Rightarrow> string option \<Rightarrow> string + string" where
  "must48hex name v = mustHexN name v 48"

definition must64hex :: "string \<Rightarrow> string option \<Rightarrow> string + string" where
  "must64hex name v = mustHexN name v 64"

text \<open>The \<open>MPTokenIssuance\<close> ledger entry and the \<open>MPToken\<close> entries of a holder.\<close>

record issuance_node =
  in_Issuer :: "string option"
  in_Flags :: nat

record mptoken =
  mt_MPTokenIssuanceID :: "string option"
  mt_Flags :: nat

record submit_result =
  sr_ok :: bool
  sr_txid :: "string option"
  sr_engineResult :: "string option"

text \<open>
  The transactions the issuer signs: \<open>MPTokenAuthorize\<close> (issuance, holder),
  \<open>Payment\<close> of an MPT amount (issuance, destination, value), \<open>Clawback\<close>
  (issuance, holder, value) and \<open>MPTokenIssuanceSet\<close> (issuance, holder, flags: 1
  locks, 2 unlocks).
\<close>

datatype txjson =
    MPTokenAuthorize string string
  | PaymentMPT string string int
  | ClawbackMPT string string int
  | MPTokenIssuanceSet string string nat

text \<open>
  The ledger as the server sees it through its client: the answers to \<open>ledger_entry\<close>
  and \<open>account_objects\<close> on the validated ledger, the answer \<open>lg_answer n tx\<close> to the
  submission of \<open>tx\<close> when \<open>n\<close> transactions have been submitted before, and the
  transactions submitted so far. A request that throws is \<open>Rejected\<close>.
\<close>

record ledger =
  lg_entry :: "string \<Rightarrow> issuance_node option awaited"
  lg_objects :: "string \<Rightarrow> mptoken list awaited"
  lg_answer :: "nat \<Rightarrow> txjson \<Rightarrow> submit_result awaited"
  lg_submitted :: "txjson list"

definition getActiveIssuanceLedgerNode :: "ledger \<Rightarrow> db \<Rightarrow> issuance_node option awaited" where
  "getActiveIssuanceLedgerNode w d =
     (let idx = kvGet d ''KFD_ISSUANCE_INDEX'' in
      if \<not> truthy_str idx then Resolved None
      else case must64hex ''issuanceIndex'' idx of
             Inl e \<Rightarrow> Rejected e
           | Inr issuanceIndex \<Rightarrow> lg_entry w issuanceIndex)"

definition assertActiveIssuanceBelongsToServerIssuer ::
  "string \<Rightarrow> ledger \<Rightarrow> db \<Rightarrow> issuance_node awaited" where
  "assertActiveIssuanceBelongsToServerIssuer serverIssuer w d =
     (case getActiveIssuanceLedgerNode w d of
        Rejected e \<Rightarrow> Rejected e
      | Resolved None \<Rightarrow> Rejected ''ISSUANCE_INDEX_NOT_SET_OR_NOT_FOUND''
      | Resolved (Some node) \<Rightarrow>
          if \<not> truthy_str (in_Issuer node) \<or> in_Issuer node \<noteq> Some serverIssuer
          then Rejected ''ISSUANCE_ISSUER_MISMATCH''
          else Resolved node)"

definition holderHasMPTokenEntry :: "ledger \<Rightarrow> string \<Rightarrow> string \<Rightarrow> bool awaited" where
  "holderHasMPTokenEntry w holder issuanceId48 =
     (case lg_objects w holder of
        Rejected e \<Rightarrow> Rejected e
      | Resolved objs \<Rightarrow>
          Resolved (list_ex (\<lambda>ob. toUpperCase (or_empty (mt_MPTokenIssuanceID ob)) = issuanceId48) objs))"

text \<open>
  The ledger shows the holder authorized for the issuance: it has the \<open>MPToken\<close> entry
  and the entry carries \<open>lsfMPTAuthorized\<close> (0x02).
\<close>

definition ledger_shows_authorized :: "ledger \<Rightarrow> string \<Rightarrow> string \<Rightarrow> bool" where
  "ledger_shows_authorized w holder issuanceId48 =
     (case lg_objects w holder of
        Rejected e \<Rightarrow> False
      | Resolved objs \<Rightarrow>
          list_ex (\<lambda>ob. toUpperCase (or_empty (mt_MPTokenIssuanceID ob)) = issuanceId48
                        \<and> odd (mt_Flags ob div 2)) objs)"

record mpt_flags =
  tfMPTCanLock :: bool
  tfMPTRequireAuth :: bool
  tfMPTCanClawback :: bool

text \<open>
  \<open>(flags & 0x0002) !== 0\<close> is \<open>odd (flags div 2)\<close>, and so on for \<open>0x0004\<close> and
  \<open>0x0040\<close>.
\<close>

definition getActiveIssuanceFlags :: "ledger \<Rightarrow> db \<Rightarrow> mpt_flags option awaited" where
  "getActiveIssuanceFlags w d =
     (case getActiveIssuanceLedgerNode w d of
        Rejected e \<Rightarrow> Rejected e
      | Resolved None \<Rightarrow> Resolved None
      | Resolved (Some node) \<Rightarrow>
          Resolved (Some \<lparr>tfMPTCanLock = odd (in_Flags node div 2),
                          tfMPTRequireAuth = odd (in_Flags node div 4),
                          tfMPTCanClawback = odd (in_Flags node div 64)\<rparr>))"

text \<open>
  \<open>submitAsIssuer\<close>: the transaction is signed, submitted and awaited. A submission
  that throws is not counted among the submitted transactions.
\<close>

definition submitAsIssuer :: "ledger \<Rightarrow> txjson \<Rightarrow> submit_result awaited \<times> ledger" where
  "submitAsIssuer w tx =
     (case lg_answer w (length (lg_submitted w)) tx of
        Rejected e \<Rightarrow> (Rejected e, w)
      | Resolved r \<Rightarrow> (Resolved r, w\<lparr>lg_submitted := lg_submitted w @ [tx]\<rparr>))"

text \<open>
  \<open>issuerAuthorizeHolder\<close>, \<open>issuerSendMPT\<close>, \<open>issuerClawbackMPT\<close>,
  \<open>issuerLockHolder\<close> and \<open>issuerUnlockHolder\<close>: the check of the issuance, then
  the submission of the transaction.
\<close>

definition issuer_submit :: "string \<Rightarrow> ledger \<Rightarrow> db \<Rightarrow> txjson \<Rightarrow> submit_result awaited \<times> ledger" where
  "issuer_submit serverIssuer w d tx =
     (case assertActiveIssuanceBelongsToServerIssuer serverIssuer w d of
        Rejected e \<Rightarrow> (Rejected e, w)
      | Resolved node \<Rightarrow> submitAsIssuer w tx)"

definition getActiveIssuanceId48OrThrow :: "db \<Rightarrow> string option \<Rightarrow> string + string" where
  "getActiveIssuanceId48OrThrow d inputMaybe48 =
     (let ident = (if truthy_str inputMaybe48 then inputMaybe48 else kvGet d ''KFD_ISSUANCE_ID'') in
      if \<not> truthy_str ident then Inl ''MISSING_KFD_ISSUANCE_ID''
      else if length (trim (the ident)) = 64 \<and> list_all (is_radix_digit 16) (trim (the ident))
        then Inl ''ISSUANCE_ID_SHOULD_BE_48HEX_NOT_64HEX''
      else must48hex ''issuanceId'' ident)"

subsection \<open>The audit tables (lines 131-194)\<close>

definition tryInsertAuthorization :: "string \<Rightarrow> string \<Rightarrow> string option \<Rightarrow> string \<Rightarrow> db \<Rightarrow> db" where
  "tryInsertAuthorization holder issuanceId48 txid source d =
     (if \<not> truthy_str txid \<or> the txid \<in> ar_txid ` set (authorizations d) then d
      else d\<lparr>authorizations := authorizations d @
              [\<lparr>ar_holder = holder, ar_issuance_id = issuanceId48, ar_txid = the txid,
                ar_source = source\<rparr>]\<rparr>)"

definition tryInsertTransfer ::
  "string \<Rightarrow> string \<Rightarrow> string \<Rightarrow> int \<Rightarrow> string option \<Rightarrow> string \<Rightarrow> db \<Rightarrow> db" where
  "tryInsertTransfer issuer destination issuanceId48 v txid source d =
     (if \<not> truthy_str txid \<or> the txid \<in> tr_txid ` set (transfers d) then d
      else d\<lparr>transfers := transfers d @
              [\<lparr>tr_issuer = issuer, tr_destination = destination, tr_issuance_id = issuanceId48,
                tr_value = v, tr_txid = the txid, tr_source = source\<rparr>]\<rparr>)"

definition tryInsertClawback ::
  "string \<Rightarrow> string \<Rightarrow> string \<Rightarrow> int \<Rightarrow> string option \<Rightarrow> string \<Rightarrow> db \<Rightarrow> db" where
  "tryInsertClawback issuer holder issuanceId48 v txid source d =
     (if \<not> truthy_str txid \<or> the txid \<in> cr_txid ` set (clawbacks d) then d
      else d\<lparr>clawbacks := clawbacks d @
              [\<lparr>cr_issuer = issuer, cr_holder = holder, cr_issuance_id = issuanceId48,
                cr_value = v, cr_txid = the txid, cr_source = source\<rparr>]\<rparr>)"

definition tryInsertLockAction :: "string \<Rightarrow> string \<Rightarrow> bool \<Rightarrow> string option \<Rightarrow> string \<Rightarrow> db \<Rightarrow> db" where
  "tryInsertLockAction holder issuanceId48 locked txid source d =
     (if \<not> truthy_str txid \<or> the txid \<in> lr_txid ` set (account_locks d) then d
      else d\<lparr>account_locks := account_locks d @
              [\<lparr>lr_holder = holder, lr_issuance_id = issuanceId48, lr_locked = locked,
                lr_txid = the txid, lr_source = source\<rparr>]\<rparr>)"

section \<open>MPT-Issuer: the swap saga of GET /api/payload/:uuid (server.mjs, lines 717-1115)\<close>

text \<open>
  The outcome of a step as the handler records it in \<open>actions\<close>; a field the object
  does not have is \<open>False\<close> or \<open>None\<close>.
\<close>

record action =
  a_ok :: bool
  a_skipped :: bool
  a_already :: bool
  a_txid :: "string option"
  a_reason :: "string option"
  a_error :: "string option"
  a_value :: "int option"

definition act_done :: "string option \<Rightarrow> int option \<Rightarrow> action" where
  "act_done txid v = \<lparr>a_ok = True, a_skipped = False, a_already = False, a_txid = txid,
     a_reason = None, a_error = None, a_value = v\<rparr>"

definition act_already :: "string option \<Rightarrow> int option \<Rightarrow> action" where
  "act_already txid v = \<lparr>a_ok = True, a_skipped = False, a_already = True, a_txid = txid,
     a_reason = None, a_error = None, a_value = v\<rparr>"

definition act_skipped :: "bool \<Rightarrow> string \<Rightarrow> action" where
  "act_skipped ok reason = \<lparr>a_ok = ok, a_skipped = True, a_already = False, a_txid = None,
     a_reason = Some reason, a_error = None, a_value = None\<rparr>"

definition act_failed :: "string \<Rightarrow> action" where
  "act_failed err = \<lparr>a_ok = False, a_skipped = False, a_already = False, a_txid = None,
     a_reason = None, a_error = Some err, a_value = None\<rparr>"

record actions =
  ac_authorize :: "action option"
  ac_issue :: "action option"
  ac_clawback :: "action option"
  ac_lock :: "action option"
  ac_unlock :: "action option"

record policy =
  autoLockAfterSwap :: bool
  autoUnlockAfterSwap :: bool
  autoClawbackBlacklist :: bool
  blacklisted :: bool

text \<open>
  The local variables of the handler once the payer is known: \<open>sg_auto\<close> is the stage
  and error of \<open>auto = {ok: false, ...}\<close> when a step has set it, \<open>sg_thrown\<close> the
  message of an exception that left the handler for its \<open>catch\<close>.
\<close>

record saga =
  sg_uuid :: string
  sg_issuanceId48 :: string
  sg_flags :: mpt_flags
  sg_validatedTx :: validated_tx
  sg_payer :: string
  sg_policy :: policy
  sg_actions :: actions
  sg_alreadyIssuedTxid :: "string option"
  sg_mptToSend :: "jsnum option"
  sg_auto :: "(string \<times> string) option"
  sg_thrown :: "string option"

text \<open>\<open>String(mptToSend)\<close> as the whole number it denotes.\<close>

definition value_of :: "saga \<Rightarrow> int" where
  "value_of L = (case sg_mptToSend L of Some (Fin n d) \<Rightarrow> n div int d | _ \<Rightarrow> 0)"

text \<open>Lines 772-789: the policy and the done marker of the issue step are read.\<close>

definition saga_begin ::
  "db \<Rightarrow> string \<Rightarrow> string \<Rightarrow> mpt_flags \<Rightarrow> validated_tx \<Rightarrow> string \<Rightarrow> saga" where
  "saga_begin d uuid issuanceId48 flags validatedTx payer =
     \<lparr>sg_uuid = uuid, sg_issuanceId48 = issuanceId48, sg_flags = flags,
      sg_validatedTx = validatedTx, sg_payer = payer,
      sg_policy = \<lparr>autoLockAfterSwap = isAutoLockEnabled d,
                    autoUnlockAfterSwap = isAutoUnlockEnabled d,
                    autoClawbackBlacklist = isAutoClawbackEnabled d,
                    blacklisted = isBlacklisted d payer\<rparr>,
      sg_actions = \<lparr>ac_authorize = None, ac_issue = None, ac_clawback = None, ac_lock = None,
                     ac_unlock = None\<rparr>,
      sg_alreadyIssuedTxid = kvGet d (''SWAP_DONE_'' @ uuid),
      sg_mptToSend = None, sg_auto = None, sg_thrown = None\<rparr>"

text \<open>
  A step that may submit a transaction is given in two parts. The first runs up to the
  \<open>await\<close>: it reads the store and either finishes the step without a submission or
  names the transaction to submit. The second runs when the submission has returned: it
  writes the done marker and the audit row and records the outcome. Between the two the
  handler is suspended and other handlers run.
\<close>

definition set_authorize :: "action \<Rightarrow> saga \<Rightarrow> saga" where
  "set_authorize a L = L\<lparr>sg_actions := (sg_actions L)\<lparr>ac_authorize := Some a\<rparr>\<rparr>"

definition set_issue :: "action \<Rightarrow> saga \<Rightarrow> saga" where
  "set_issue a L = L\<lparr>sg_actions := (sg_actions L)\<lparr>ac_issue := Some a\<rparr>\<rparr>"

definition set_clawback :: "action \<Rightarrow> saga \<Rightarrow> saga" where
  "set_clawback a L = L\<lparr>sg_actions := (sg_actions L)\<lparr>ac_clawback := Some a\<rparr>\<rparr>"

definition set_lock :: "action \<Rightarrow> saga \<Rightarrow> saga" where
  "set_lock a L = L\<lparr>sg_actions := (sg_actions L)\<lparr>ac_lock := Some a\<rparr>\<rparr>"

definition set_unlock :: "action \<Rightarrow> saga \<Rightarrow> saga" where
  "set_unlock a L = L\<lparr>sg_actions := (sg_actions L)\<lparr>ac_unlock := Some a\<rparr>\<rparr>"

subsection \<open>(A) Authorize, lines 791-836\<close>

definition authorize_pre :: "db \<Rightarrow> saga \<Rightarrow> txjson option \<times> saga" where
  "authorize_pre d L =
     (if tfMPTRequireAuth (sg_flags L) then
        let authAlready = kvGet d (''SWAP_AUTH_DONE_'' @ sg_uuid L) in
        if truthy_str authAlready then (None, set_authorize (act_already authAlready None) L)
        else (Some (MPTokenAuthorize (sg_issuanceId48 L) (sg_payer L)), L)
      else (None, set_authorize (act_skipped True ''REQUIRE_AUTH_DISABLED'') L))"

definition authorize_post :: "submit_result \<Rightarrow> db \<Rightarrow> saga \<Rightarrow> db \<times> saga" where
  "authorize_post auth d L =
     (if \<not> sr_ok auth then
        (d, L\<lparr>sg_auto := Some (''authorize'', ''AUTO_AUTHORIZE_FAILED:'' @ str_of (sr_engineResult auth))\<rparr>)
      else
        (tryInsertAuthorization (sg_payer L) (sg_issuanceId48 L) (sr_txid auth) ''AUTO_AUTHORIZE_SWAP''
           (kvSet (''SWAP_AUTH_DONE_'' @ sg_uuid L) (str_of (sr_txid auth)) d),
         set_authorize (act_done (sr_txid auth) None) L))"

subsection \<open>(B) The amount, lines 838-863\<close>

definition calc_step :: "saga \<Rightarrow> saga" where
  "calc_step L =
     (if sg_auto L \<noteq> None then L
      else
        let mptToSend = calcMptToSendFromPayment (sg_validatedTx L) in
        if \<not> finite_positive mptToSend
        then L\<lparr>sg_mptToSend := Some mptToSend, sg_auto := Some (''calc'', ''Calculated MPT <= 0'')\<rparr>
        else L\<lparr>sg_mptToSend := Some mptToSend\<rparr>)"

subsection \<open>(C) Issue, lines 865-905\<close>

definition issue_pre :: "db \<Rightarrow> saga \<Rightarrow> txjson option \<times> saga" where
  "issue_pre d L =
     (if sg_auto L \<noteq> None then (None, L)
      else if truthy_str (sg_alreadyIssuedTxid L)
        then (None, set_issue (act_already (sg_alreadyIssuedTxid L) (Some (value_of L))) L)
      else (Some (PaymentMPT (sg_issuanceId48 L) (sg_payer L) (value_of L)), L))"

definition issue_post :: "string \<Rightarrow> submit_result \<Rightarrow> db \<Rightarrow> saga \<Rightarrow> db \<times> saga" where
  "issue_post serverIssuer issue d L =
     (if \<not> sr_ok issue then
        (d, L\<lparr>sg_auto := Some (''issue'', ''AUTO_ISSUE_FAILED:'' @ str_of (sr_engineResult issue))\<rparr>)
      else
        (tryInsertTransfer serverIssuer (sg_payer L) (sg_issuanceId48 L) (value_of L) (sr_txid issue)
           ''SWAP_AUTO'' (kvSet (''SWAP_DONE_'' @ sg_uuid L) (str_of (sr_txid issue)) d),
         set_issue (act_done (sr_txid issue) (Some (value_of L))) L))"

subsection \<open>(D1) Clawback of a blacklisted payer, lines 907-963\<close>

definition clawback_pre :: "db \<Rightarrow> saga \<Rightarrow> txjson option \<times> saga" where
  "clawback_pre d L =
     (if sg_auto L = None \<and> autoClawbackBlacklist (sg_policy L) \<and> blacklisted (sg_policy L) then
        if \<not> tfMPTCanClawback (sg_flags L)
        then (None, set_clawback (act_skipped False ''MPT_CLAWBACK_NOT_ENABLED'') L)
        else
          let clawbackAlready = kvGet d (''SWAP_CLAWBACK_DONE_'' @ sg_uuid L) in
          if truthy_str clawbackAlready
          then (None, set_clawback (act_already clawbackAlready (Some (value_of L))) L)
          else (Some (ClawbackMPT (sg_issuanceId48 L) (sg_payer L) (value_of L)), L)
      else if sg_auto L = None then
        (None, set_clawback (act_skipped True
           (if blacklisted (sg_policy L) then ''AUTO_CLAWBACK_POLICY_DISABLED'' else ''NOT_BLACKLISTED'')) L)
      else (None, L))"

definition clawback_post :: "string \<Rightarrow> submit_result \<Rightarrow> db \<Rightarrow> saga \<Rightarrow> db \<times> saga" where
  "clawback_post serverIssuer claw d L =
     (if \<not> sr_ok claw then
        (d, set_clawback (act_failed (''AUTO_CLAWBACK_FAILED:'' @ str_of (sr_engineResult claw))) L)
      else
        (tryInsertClawback serverIssuer (sg_payer L) (sg_issuanceId48 L) (value_of L) (sr_txid claw)
           ''AUTO_CLAWBACK_SWAP_BLACKLIST''
           (kvSet (''SWAP_CLAWBACK_DONE_'' @ sg_uuid L) (str_of (sr_txid claw)) d),
         set_clawback (act_done (sr_txid claw) (Some (value_of L))) L))"

text \<open>\<open>actions.clawback?.ok === true && !actions.clawback?.skipped\<close>\<close>

definition clawback_succeeded :: "saga \<Rightarrow> bool" where
  "clawback_succeeded L =
     (case ac_clawback (sg_actions L) of None \<Rightarrow> False | Some a \<Rightarrow> a_ok a \<and> \<not> a_skipped a)"

subsection \<open>(D2) Lock, lines 965-1018\<close>

definition lock_pre :: "db \<Rightarrow> saga \<Rightarrow> txjson option \<times> saga" where
  "lock_pre d L =
     (if sg_auto L = None \<and> autoLockAfterSwap (sg_policy L) \<and> \<not> clawback_succeeded L then
        if \<not> tfMPTCanLock (sg_flags L)
        then (None, set_lock (act_skipped False ''MPT_LOCK_NOT_ENABLED'') L)
        else
          let lockAlready = kvGet d (''SWAP_LOCK_DONE_'' @ sg_uuid L) in
          if truthy_str lockAlready then (None, set_lock (act_already lockAlready None) L)
          else (Some (MPTokenIssuanceSet (sg_issuanceId48 L) (sg_payer L) 1), L)
      else if sg_auto L = None then
        (None, set_lock (act_skipped True
           (if autoLockAfterSwap (sg_policy L) then ''SKIPPED_AFTER_SUCCESSFUL_CLAWBACK''
            else ''AUTO_LOCK_POLICY_DISABLED'')) L)
      else (None, L))"

definition lock_post :: "submit_result \<Rightarrow> db \<Rightarrow> saga \<Rightarrow> db \<times> saga" where
  "lock_post lock d L =
     (if \<not> sr_ok lock then
        (d, set_lock (act_failed (''AUTO_LOCK_FAILED:'' @ str_of (sr_engineResult lock))) L)
      else
        (tryInsertLockAction (sg_payer L) (sg_issuanceId48 L) True (sr_txid lock) ''AUTO_LOCK_AFTER_SWAP''
           (kvSet (''SWAP_LOCK_DONE_'' @ sg_uuid L) (str_of (sr_txid lock)) d),
         set_lock (act_done (sr_txid lock) None) L))"

subsection \<open>(D3) Unlock, lines 1020-1081\<close>

definition unlock_pre :: "db \<Rightarrow> saga \<Rightarrow> txjson option \<times> saga" where
  "unlock_pre d L =
     (if sg_auto L = None \<and> autoUnlockAfterSwap (sg_policy L) \<and> \<not> autoLockAfterSwap (sg_policy L)
         \<and> \<not> clawback_succeeded L then
        if \<not> tfMPTCanLock (sg_flags L)
        then (None, set_unlock (act_skipped False ''MPT_LOCK_NOT_ENABLED'') L)
        else
          let unlockAlready = kvGet d (''SWAP_UNLOCK_DONE_'' @ sg_uuid L) in
          if truthy_str unlockAlready then (None, set_unlock (act_already unlockAlready None) L)
          else (Some (MPTokenIssuanceSet (sg_issuanceId48 L) (sg_payer L) 2), L)
      else if sg_auto L = None then
        (None, set_unlock (act_skipped True
           (if autoUnlockAfterSwap (sg_policy L)
            then (if autoLockAfterSwap (sg_policy L)
                  then ''AUTO_UNLOCK_DISABLED_BECAUSE_AUTO_LOCK_ENABLED''
                  else ''SKIPPED_AFTER_SUCCESSFUL_CLAWBACK'')
            else ''AUTO_UNLOCK_POLICY_DISABLED'')) L)
      else (None, L))"

definition unlock_post :: "submit_result \<Rightarrow> db \<Rightarrow> saga \<Rightarrow> db \<times> saga" where
  "unlock_post unlock d L =
     (if \<not> sr_ok unlock then
        (d, set_unlock (act_failed (''AUTO_UNLOCK_FAILED:'' @ str_of (sr_engineResult unlock))) L)
      else
        (tryInsertLockAction (sg_payer L) (sg_issuanceId48 L) False (sr_txid unlock)
           ''AUTO_UNLOCK_AFTER_SWAP''
           (kvSet (''SWAP_UNLOCK_DONE_'' @ sg_uuid L) (str_of (sr_txid unlock)) d),
         set_unlock (act_done (sr_txid unlock) None) L))"

subsection \<open>Running the steps\<close>

text \<open>
  A step run without another handler in between: the first part, the issuer's action on
  the ledger, the second part. An exception of the action leaves the handler; the steps
  after it do not run.
\<close>

definition step_resume ::
  "string \<Rightarrow> (submit_result \<Rightarrow> db \<Rightarrow> saga \<Rightarrow> db \<times> saga) \<Rightarrow> txjson \<Rightarrow> ledger \<times> db \<times> saga
     \<Rightarrow> ledger \<times> db \<times> saga" where
  "step_resume serverIssuer post tx wdL =
     (let w = fst wdL; d = fst (snd wdL); L = snd (snd wdL); sub = issuer_submit serverIssuer w d tx
      in case fst sub of
           Rejected e \<Rightarrow> (snd sub, d, L\<lparr>sg_thrown := Some e\<rparr>)
         | Resolved r \<Rightarrow> (snd sub, fst (post r d L), snd (post r d L)))"

definition run_step ::
  "string \<Rightarrow> (db \<Rightarrow> saga \<Rightarrow> txjson option \<times> saga) \<Rightarrow> (submit_result \<Rightarrow> db \<Rightarrow> saga \<Rightarrow> db \<times> saga)
     \<Rightarrow> ledger \<times> db \<times> saga \<Rightarrow> ledger \<times> db \<times> saga" where
  "run_step serverIssuer pre post wdL =
     (let w = fst wdL; d = fst (snd wdL); L = snd (snd wdL) in
      if sg_thrown L \<noteq> None then wdL
      else case fst (pre d L) of
             None \<Rightarrow> (w, d, snd (pre d L))
           | Some tx \<Rightarrow> step_resume serverIssuer post tx (w, d, snd (pre d L)))"

definition authorize_step :: "string \<Rightarrow> ledger \<times> db \<times> saga \<Rightarrow> ledger \<times> db \<times> saga" where
  "authorize_step serverIssuer = run_step serverIssuer authorize_pre authorize_post"

definition issue_step :: "string \<Rightarrow> ledger \<times> db \<times> saga \<Rightarrow> ledger \<times> db \<times> saga" where
  "issue_step serverIssuer = run_step serverIssuer issue_pre (issue_post serverIssuer)"

definition clawback_step :: "string \<Rightarrow> ledger \<times> db \<times> saga \<Rightarrow> ledger \<times> db \<times> saga" where
  "clawback_step serverIssuer =
     run_step serverIssuer clawback_pre (clawback_post serverIssuer)"

definition lock_step :: "string \<Rightarrow> ledger \<times> db \<times> saga \<Rightarrow> ledger \<times> db \<times> saga" where
  "lock_step serverIssuer = run_step serverIssuer lock_pre lock_post"

definition unlock_step :: "string \<Rightarrow> ledger \<times> db \<times> saga \<Rightarrow> ledger \<times> db \<times> saga" where
  "unlock_step serverIssuer = run_step serverIssuer unlock_pre unlock_post"

definition calc_only :: "ledger \<times> db \<times> saga \<Rightarrow> ledger \<times> db \<times> saga" where
  "calc_only wdL =
     (if sg_thrown (snd (snd wdL)) \<noteq> None then wdL
      else (fst wdL, fst (snd wdL), calc_step (snd (snd wdL))))"

text \<open>The policy branch (D1, D2, D3), and the whole saga of one poll.\<close>

definition policy_branch :: "string \<Rightarrow> ledger \<times> db \<times> saga \<Rightarrow> ledger \<times> db \<times> saga" where
  "policy_branch serverIssuer wdL =
     unlock_step serverIssuer (lock_step serverIssuer (clawback_step serverIssuer wdL))"

definition run_saga :: "string \<Rightarrow> ledger \<times> db \<times> saga \<Rightarrow> ledger \<times> db \<times> saga" where
  "run_saga serverIssuer wdL =
     policy_branch serverIssuer
       (issue_step serverIssuer (calc_only (authorize_step serverIssuer wdL)))"

subsection \<open>The handler around the saga, lines 717-789 and 1083-1115\<close>

record xumm_status =
  xs_resolved :: bool
  xs_signed :: bool
  xs_cancelled :: bool
  xs_expired :: bool
  xs_txid :: "string option"

text \<open>
  The answers to one poll from the wallet service and from the ledger's \<open>tx\<close> command,
  \<open>pl_tx i\<close> being the answer at the \<open>i\<close>-th try of \<open>waitTxValidated\<close>.
\<close>

record poll_env =
  pl_payload :: "xumm_status awaited"
  pl_tx :: "nat \<Rightarrow> validated_tx option awaited"

text \<open>\<open>waitTxValidated\<close> (lines 375-385): the first validated answer within the tries left.\<close>

fun waitTxValidated :: "(nat \<Rightarrow> validated_tx option awaited) \<Rightarrow> nat \<Rightarrow> nat \<Rightarrow> validated_tx option" where
  "waitTxValidated q i 0 = None"
| "waitTxValidated q i (Suc n) =
     (case q i of
        Resolved (Some r) \<Rightarrow> if vt_validated r then Some r else waitTxValidated q (Suc i) n
      | _ \<Rightarrow> waitTxValidated q (Suc i) n)"

definition markPayload :: "string \<Rightarrow> xumm_status \<Rightarrow> db \<Rightarrow> db" where
  "markPayload uuid p d =
     (case xumm_payloads d uuid of
        None \<Rightarrow> d
      | Some row \<Rightarrow>
          d\<lparr>xumm_payloads := (xumm_payloads d)(uuid \<mapsto>
               row\<lparr>pr_resolved := True, pr_signed := xs_signed p, pr_cancelled := xs_cancelled p,
                   pr_expired := xs_expired p,
                   pr_txid := (if truthy_str (xs_txid p) then xs_txid p else None)\<rparr>)\<rparr>)"

record auto =
  au_ok :: bool
  au_stage :: "string option"
  au_error :: "string option"
  au_payer :: "string option"
  au_issuedTxid :: "string option"
  au_mptToSend :: "int option"
  au_policy :: "policy option"
  au_actions :: "actions option"

definition auto_failed :: "string \<Rightarrow> string \<Rightarrow> auto" where
  "auto_failed stage err = \<lparr>au_ok = False, au_stage = Some stage, au_error = Some err,
     au_payer = None, au_issuedTxid = None, au_mptToSend = None, au_policy = None,
     au_actions = None\<rparr>"

text \<open>Lines 1083-1095, and the \<open>auto\<close> a failed step has set.\<close>

definition final_auto :: "saga \<Rightarrow> auto" where
  "final_auto L =
     (case sg_auto L of
        Some (stage, err) \<Rightarrow>
          (auto_failed stage err)\<lparr>au_payer := Some (sg_payer L), au_policy := Some (sg_policy L),
                                   au_actions := Some (sg_actions L)\<rparr>
      | None \<Rightarrow>
          \<lparr>au_ok = True, au_stage = None, au_error = None, au_payer = Some (sg_payer L),
           au_issuedTxid =
             (case ac_issue (sg_actions L) of
                None \<Rightarrow> (if truthy_str (sg_alreadyIssuedTxid L) then sg_alreadyIssuedTxid L else None)
              | Some a \<Rightarrow>
                  if truthy_str (a_txid a) then a_txid a
                  else if truthy_str (sg_alreadyIssuedTxid L) then sg_alreadyIssuedTxid L else None),
           au_mptToSend = Some (value_of L), au_policy = Some (sg_policy L),
           au_actions = Some (sg_actions L)\<rparr>)"

record poll_body =
  pb_resolved :: bool
  pb_signed :: bool
  pb_cancelled :: bool
  pb_expired :: bool
  pb_txid :: "string option"
  pb_validatedTx :: "validated_tx option"
  pb_auto :: "auto option"

datatype poll_http = PollError string | PollOk poll_body

definition poll_body_of :: "xumm_status \<Rightarrow> validated_tx option \<Rightarrow> auto option \<Rightarrow> poll_body" where
  "poll_body_of p validatedTx a =
     \<lparr>pb_resolved = xs_resolved p, pb_signed = xs_signed p, pb_cancelled = xs_cancelled p,
      pb_expired = xs_expired p, pb_txid = (if truthy_str (xs_txid p) then xs_txid p else None),
      pb_validatedTx = validatedTx, pb_auto = a\<rparr>"

text \<open>Lines 739-789: the issuance, its flags and the payer, then the saga.\<close>

definition poll_validated ::
  "string \<Rightarrow> string \<Rightarrow> xumm_status \<Rightarrow> validated_tx \<Rightarrow> ledger \<times> db \<Rightarrow> poll_http \<times> ledger \<times> db" where
  "poll_validated serverIssuer uuid p validatedTx wd =
     (let w = fst wd; d = snd wd;
          failed = (\<lambda>stage err. (PollOk (poll_body_of p (Some validatedTx) (Some (auto_failed stage err))), w, d))
      in case getActiveIssuanceId48OrThrow d None of
           Inl e \<Rightarrow> failed ''bootstrap'' e
         | Inr issuanceId48 \<Rightarrow>
             (case getActiveIssuanceFlags w d of
                Rejected e \<Rightarrow> failed ''bootstrap'' e
              | Resolved None \<Rightarrow> failed ''bootstrap'' ''ISSUANCE_INDEX_NOT_SET_OR_NOT_FOUND''
              | Resolved (Some flags) \<Rightarrow>
                  if \<not> truthy_str (tf_Account (tx_json_of validatedTx))
                  then failed ''read-payer'' ''Cannot read payer Account from tx''
                  else
                    let out = run_saga serverIssuer
                                (w, d, saga_begin d uuid issuanceId48 flags validatedTx
                                         (the (tf_Account (tx_json_of validatedTx))))
                    in (case sg_thrown (snd (snd out)) of
                          Some e \<Rightarrow> (PollError e, fst out, fst (snd out))
                        | None \<Rightarrow>
                            (PollOk (poll_body_of p (Some validatedTx) (Some (final_auto (snd (snd out))))),
                             fst out, fst (snd out)))))"

definition payload_poll ::
  "string \<Rightarrow> poll_env \<Rightarrow> string \<Rightarrow> ledger \<times> db \<Rightarrow> poll_http \<times> ledger \<times> db" where
  "payload_poll serverIssuer env uuid wd =
     (case pl_payload env of
        Rejected e \<Rightarrow> (PollError e, wd)
      | Resolved p \<Rightarrow>
          let d1 = (if xs_resolved p then markPayload uuid p (snd wd) else snd wd) in
          if \<not> (xs_signed p \<and> truthy_str (xs_txid p)) then (PollOk (poll_body_of p None None), fst wd, d1)
          else (case waitTxValidated (pl_tx env) 0 20 of
                  None \<Rightarrow> (PollOk (poll_body_of p None None), fst wd, d1)
                | Some validatedTx \<Rightarrow> poll_validated serverIssuer uuid p validatedTx (fst wd, d1)))"

subsection \<open>Two handlers of one payload, interleaved\<close>

text \<open>
  Two polls of the same payload whose handlers interleave at their \<open>await\<close>s, for an
  issuance without \<open>tfMPTRequireAuth\<close>. Handler A runs from the read of the policy and
  of the done marker (\<open>saga_begin\<close>) through the authorize step, which submits nothing,
  and the amount to the \<open>await\<close> of \<open>issuerSendMPT\<close>. While A is suspended, handler
  B runs the same stretch on the same store. Then A's submission returns and A runs to
  its end; then B's submission returns and B runs to its end. \<open>None\<close> if a handler
  does not reach the submission.
\<close>

definition until_issue :: "db \<Rightarrow> saga \<Rightarrow> txjson option \<times> saga" where
  "until_issue d L = issue_pre d (calc_step (snd (authorize_pre d L)))"

definition polls_interleaved ::
  "string \<Rightarrow> string \<Rightarrow> string \<Rightarrow> mpt_flags \<Rightarrow> validated_tx \<Rightarrow> string \<Rightarrow> ledger \<times> db
     \<Rightarrow> (ledger \<times> db \<times> saga \<times> saga) option" where
  "polls_interleaved serverIssuer uuid issuanceId48 flags validatedTx payer wd =
     (let w0 = fst wd; d0 = snd wd;
          a = until_issue d0 (saga_begin d0 uuid issuanceId48 flags validatedTx payer);
          b = until_issue d0 (saga_begin d0 uuid issuanceId48 flags validatedTx payer)
      in if tfMPTRequireAuth flags \<or> fst a = None \<or> fst b = None then None
         else
           let a_end = policy_branch serverIssuer
                         (step_resume serverIssuer (issue_post serverIssuer) (the (fst a)) (w0, d0, snd a));
               b_end = policy_branch serverIssuer
                         (step_resume serverIssuer (issue_post serverIssuer) (the (fst b))
                            (fst a_end, fst (snd a_end), snd b))
           in Some (fst b_end, fst (snd b_end), snd (snd a_end), snd (snd b_end)))"

subsection \<open>A sample issuance\<close>

definition sample_issuance_id :: string where
  "sample_issuance_id = ''0000000ABBBBBBBBBBBBBBBBBBBBBBBBBBBBBBBBBBBBBBBB''"

definition sample_issuance_index :: string where
  "sample_issuance_index = ''CCCCCCCCCCCCCCCCCCCCCCCCCCCCCCCCCCCCCCCCCCCCCCCCCCCCCCCCCCCCCCCC''"

text \<open>
  A ledger with the issuance of \<open>rIssuer\<close> under the sample index, with the given
  flags, \<open>MPToken\<close> entries of every holder and answers to submissions.
\<close>

definition sample_ledger :: "nat \<Rightarrow> mptoken list \<Rightarrow> (nat \<Rightarrow> txjson \<Rightarrow> submit_result awaited) \<Rightarrow> ledger" where
  "sample_ledger flags objs answer =
     \<lparr>lg_entry = (\<lambda>i. if i = sample_issuance_index
                         then Resolved (Some \<lparr>in_Issuer = Some ''rIssuer'', in_Flags = flags\<rparr>)
                         else Resolved None),
      lg_objects = (\<lambda>h. Resolved objs),
      lg_answer = answer,
      lg_submitted = []\<rparr>"

text \<open>The \<open>n\<close>-th submission succeeds with the transaction id \<open>TX\<close>\<open>n\<close>.\<close>

definition accepted :: "nat \<Rightarrow> submit_result" where
  "accepted n = \<lparr>sr_ok = True, sr_txid = Some (''TX'' @ dec_str n), sr_engineResult = Some ''tesSUCCESS''\<rparr>"

definition accept_all :: "nat \<Rightarrow> txjson \<Rightarrow> submit_result awaited" where
  "accept_all n tx = Resolved (accepted n)"

text \<open>The ledger rejects every clawback with \<open>tecNO_PERMISSION\<close> and accepts the rest.\<close>

definition reject_clawback :: "nat \<Rightarrow> txjson \<Rightarrow> submit_result awaited" where
  "reject_clawback n tx =
     (case tx of
        ClawbackMPT i h v \<Rightarrow>
          Resolved \<lparr>sr_ok = False, sr_txid = Some (''TX'' @ dec_str n),
                    sr_engineResult = Some ''tecNO_PERMISSION''\<rparr>
      | _ \<Rightarrow> Resolved (accepted n))"

text \<open>The store after the issuance was created, with further rows of \<open>kv\<close>.\<close>

definition sample_db :: "(string \<times> string) list \<Rightarrow> db" where
  "sample_db rows =
     \<lparr>kv = map_of ([(''KFD_ISSUANCE_ID'', sample_issuance_id),
                      (''KFD_ISSUANCE_INDEX'', sample_issuance_index)] @ rows),
      xumm_payloads = Map.empty, authorizations = [], transfers = [], clawbacks = [],
      account_locks = []\<rparr>"

text \<open>
  The policy of C3: the payer \<open>rPayer\<close> is blacklisted, automatic clawback and
  automatic lock are on.
\<close>

definition clawback_lock_rows :: "(string \<times> string) list" where
  "clawback_lock_rows =
     [(''POLICY_AUTO_LOCK_AFTER_SWAP'', ''1''), (''POLICY_AUTO_CLAWBACK_BLACKLIST'', ''1''),
      (''BLACKLIST_rPayer'', ''1'')]"

text \<open>
  A poll that finds the payload signed, with the validated payment \<open>T\<close> of 1000000
  drops by \<open>rPayer\<close>.
\<close>

definition signed_env :: poll_env where
  "signed_env =
     \<lparr>pl_payload = Resolved \<lparr>xs_resolved = True, xs_signed = True, xs_cancelled = False,
                              xs_expired = False, xs_txid = Some ''T''\<rparr>,
      pl_tx = (\<lambda>i. Resolved (Some (delivered (PaidString ''1000000''))))\<rparr>"

definition no_flags :: mpt_flags where
  "no_flags = \<lparr>tfMPTCanLock = False, tfMPTRequireAuth = False, tfMPTCanClawback = False\<rparr>"

text \<open>The actions and the policy in the answer of a poll.\<close>

definition poll_actions :: "poll_http \<Rightarrow> actions option" where
  "poll_actions r =
     (case r of
        PollError e \<Rightarrow> None
      | PollOk b \<Rightarrow> (case pb_auto b of None \<Rightarrow> None | Some a \<Rightarrow> au_actions a))"

definition poll_policy :: "poll_http \<Rightarrow> policy option" where
  "poll_policy r =
     (case r of
        PollError e \<Rightarrow> None
      | PollOk b \<Rightarrow> (case pb_auto b of None \<Rightarrow> None | Some a \<Rightarrow> au_policy a))"

section \<open>Policy update: frame property\<close>

lemma post_policy_tables:
  "snd (post_policy body d) = d\<lparr>kv := kv (snd (post_policy body d))\<rparr>"
  by (simp add: post_policy_def kvSet_def Let_def split: option.splits)

text \<open>
  C10. A POST to the policy endpoint writes exactly the flags that are defined in the
  request body: a flag that is present is stored as "1" or "0" by its truthiness, a
  flag that is absent keeps its stored value, every other key of the \<open>kv\<close> table
  keeps its value, and no other table changes.
\<close>

theorem post_policy_frame:
  assumes "post_policy body d = (r, d')"
  shows "(\<forall>f \<in> policy_flags.
            kv d' (policy_key f) =
              (case body f of None \<Rightarrow> kv d (policy_key f) | Some v \<Rightarrow> Some (flag_string v)))
       \<and> (\<forall>k. k \<notin> policy_key ` policy_flags \<longrightarrow> kv d' k = kv d k)
       \<and> xumm_payloads d' = xumm_payloads d
       \<and> authorizations d' = authorizations d
       \<and> transfers d' = transfers d
       \<and> clawbacks d' = clawbacks d
       \<and> account_locks d' = account_locks d"
  using assms
  by (auto simp: post_policy_def kvSet_def Let_def policy_flags_def policy_key_def
           split: option.splits)

theorem post_policy_frame_witness:
  "(let d = \<lparr>kv = [''POLICY_AUTO_UNLOCK_AFTER_SWAP'' \<mapsto> ''1'', ''KFD_SYMBOL'' \<mapsto> ''KFD''],
             xumm_payloads = Map.empty, authorizations = [], transfers = [],
             clawbacks = [], account_locks = []\<rparr>;
        d' = snd (post_policy [''autoLockAfterSwap'' \<mapsto> JBool True] d)
    in kv d' ''POLICY_AUTO_LOCK_AFTER_SWAP'' = Some ''1''
     \<and> kv d' ''POLICY_AUTO_UNLOCK_AFTER_SWAP'' = Some ''1''
     \<and> kv d' ''POLICY_AUTO_CLAWBACK_BLACKLIST'' = None
     \<and> kv d' ''KFD_SYMBOL'' = Some ''KFD''
     \<and> authorizations d' = [])"
  using post_policy_frame
    [of "[''autoLockAfterSwap'' \<mapsto> JBool True]"
        "\<lparr>kv = [''POLICY_AUTO_UNLOCK_AFTER_SWAP'' \<mapsto> ''1'', ''KFD_SYMBOL'' \<mapsto> ''KFD''],
          xumm_payloads = Map.empty, authorizations = [], transfers = [],
          clawbacks = [], account_locks = []\<rparr>"
        "fst (post_policy [''autoLockAfterSwap'' \<mapsto> JBool True]
          \<lparr>kv = [''POLICY_AUTO_UNLOCK_AFTER_SWAP'' \<mapsto> ''1'', ''KFD_SYMBOL'' \<mapsto> ''KFD''],
            xumm_payloads = Map.empty, authorizations = [], transfers = [],
            clawbacks = [], account_locks = []\<rparr>)"
        "snd (post_policy [''autoLockAfterSwap'' \<mapsto> JBool True]
          \<lparr>kv = [''POLICY_AUTO_UNLOCK_AFTER_SWAP'' \<mapsto> ''1'', ''KFD_SYMBOL'' \<mapsto> ''KFD''],
            xumm_payloads = Map.empty, authorizations = [], transfers = [],
            clawbacks = [], account_locks = []\<rparr>)"]
  by (simp add: policy_flags_def policy_key_def flag_string_def Let_def)

section \<open>AI-order: the TTL sweep\<close>



text \<open>
  In every map the sweep visits, an entry it removes is older than the TTL of that map.
\<close>

lemma sweep_removed_old:
  "(completedByPayload s u = Some (r, c) \<and> completedByPayload (sweep cfg now s) u = None
      \<longrightarrow> now - c > ORDER_TTL_MS cfg)
 \<and> (createOrderCache s k = Some (resp, c') \<and> createOrderCache (sweep cfg now s) k = None
      \<longrightarrow> now - c' > CREATE_ORDER_CACHE_MS cfg)
 \<and> (trustlineStatusCache s k' = Some e \<and> trustlineStatusCache (sweep cfg now s) k' = None
      \<longrightarrow> now - tl_checkedAt e > TRUSTLINE_CACHE_MS cfg)
 \<and> (txCache s x = Some (v, ts) \<and> txCache (sweep cfg now s) x = None
      \<longrightarrow> now - ts > TX_CACHE_TTL cfg)"
  by (auto simp: sweep_def delete_where_def split: option.splits if_splits)

section \<open>AI-order: the stages of a status poll\<close>



lemma buy_job_state:
  "txCache (fst (snd (buy_job cfg env ord t s))) = txCache s"
  "inflight (fst (snd (buy_job cfg env ord t s))) = inflight s"
  "ordersByPaymentPayload (fst (snd (buy_job cfg env ord t s))) = ordersByPaymentPayload s"
  "completedByPayload (fst (snd (buy_job cfg env ord t s))) = completedByPayload s"
  "processedTx s \<subseteq> processedTx (fst (snd (buy_job cfg env ord t s)))"
  by (auto simp: buy_job_def split: awaited.split verdict.split)


















section \<open>AI-order: the verification cache\<close>








section \<open>AI-order: the pinned payer\<close>

lemma open_step:
  assumes "open_for s u b" "b \<noteq> []" "\<not> signed_by env (Some b)"
  shows "open_for (fst (snd (buy_status cfg now env u s))) u b"
  using assms
  by (auto simp: open_for_def signed_by_def buy_status_def buy_signed_def Let_def truthy_str_def
           split: option.splits awaited.splits if_splits)

lemma open_polls:
  assumes "open_for s u b" "b \<noteq> []" "\<forall>(now, env) \<in> set polls. \<not> signed_by env (Some b)"
  shows "open_for (buy_polls cfg polls u s) u b"
  using assms
proof (induction polls arbitrary: s)
  case Nil
  then show ?case by simp
next
  case (Cons p polls)
  obtain now env where p: "p = (now, env)" by (cases p)
  from Cons.prems p have "open_for (fst (snd (buy_status cfg now env u s))) u b"
    by (auto intro: open_step)
  with Cons p show ?case by simp
qed

lemma mismatch_rejected:
  assumes "open_for s u b" "b \<noteq> []"
    and "be_payload env = Resolved (Some p)" "xp_has_meta p" "xp_signed p" "truthy_str (xp_txid p)"
    and "xp_account p \<noteq> Some b"
  shows "fst (buy_status cfg now env u s) = respond 400 (StatusError ''Buyer mismatch for this order'')
       \<and> snd (snd (buy_status cfg now env u s)) = [PayloadGet u]"
  using assms
  by (auto simp: open_for_def buy_status_def buy_signed_def Let_def truthy_str_def split: option.splits)

lemma buy_lookup_buyer:
  assumes "ordersByPaymentPayload s u = Some ord"
  shows "\<exists>ord'. ordersByPaymentPayload (fst (snd (buy_lookup cfg now env u t ord s))) u = Some ord'
           \<and> o_buyer ord' = o_buyer ord"
  using assms
  by (auto simp: buy_lookup_def buy_finish_def buy_job_state Let_def
           split: option.splits awaited.splits status_body.splits)

lemma first_observed_pinned:
  assumes "ordersByPaymentPayload s u = Some ord" "\<not> truthy_str (o_buyer ord)"
    and "o_status ord = Created" "completedByPayload s u = None"
    and "be_payload env = Resolved (Some p)" "xp_has_meta p" "xp_signed p" "truthy_str (xp_txid p)"
  shows "\<exists>ord'. ordersByPaymentPayload (fst (snd (buy_status cfg now env u s))) u = Some ord'
           \<and> o_buyer ord' = xp_account p"
proof -
  let ?t = "the (xp_txid p)"
  let ?o1 = "ord\<lparr>o_buyer := xp_account p\<rparr>"
  let ?o2 = "if \<not> truthy_str (o_txid ?o1) then ?o1\<lparr>o_txid := Some ?t\<rparr> else ?o1"
  let ?s1 = "s\<lparr>ordersByPaymentPayload := (ordersByPaymentPayload s)(u \<mapsto> ?o2)\<rparr>"
  have "buy_status cfg now env u s = buy_lookup cfg now env u ?t ?o2 ?s1"
    using assms by (simp add: buy_status_def buy_signed_def Let_def)
  moreover have "ordersByPaymentPayload ?s1 u = Some ?o2" by simp
  moreover have "o_buyer ?o2 = xp_account p" by simp
  ultimately show ?thesis
    using buy_lookup_buyer [of ?s1 u ?o2 cfg now env ?t] by simp
qed

text \<open>
  C5. For an intent that is not completed: (1) when no payer is recorded yet, the account
  that signed the payload of the first poll that sees a signature is recorded as the
  payer; (2) when the payer \<open>b\<close> is recorded, a poll that sees the payload signed by
  any other account is answered with status 400, "Buyer mismatch for this order", makes
  no call to the ledger, and leaves the intent open with payer \<open>b\<close>; (3) after any
  sequence of polls none of which sees the payload signed by \<open>b\<close>, the intent is still
  open with payer \<open>b\<close>: no other account completes it.
\<close>

theorem payer_pinned:
  assumes "ordersByPaymentPayload s u = Some ord" "o_status ord = Created"
    and "completedByPayload s u = None"
  shows "(\<not> truthy_str (o_buyer ord) \<and> be_payload env = Resolved (Some p) \<and> xp_has_meta p
            \<and> xp_signed p \<and> truthy_str (xp_txid p)
          \<longrightarrow> (\<exists>ord'. ordersByPaymentPayload (fst (snd (buy_status cfg now env u s))) u = Some ord'
                  \<and> o_buyer ord' = xp_account p))
       \<and> (o_buyer ord = Some b \<and> b \<noteq> [] \<and> be_payload env = Resolved (Some p) \<and> xp_has_meta p
            \<and> xp_signed p \<and> truthy_str (xp_txid p) \<and> xp_account p \<noteq> Some b
          \<longrightarrow> fst (buy_status cfg now env u s)
                  = respond 400 (StatusError ''Buyer mismatch for this order'')
              \<and> snd (snd (buy_status cfg now env u s)) = [PayloadGet u]
              \<and> open_for (fst (snd (buy_status cfg now env u s))) u b)
       \<and> (o_buyer ord = Some b \<and> b \<noteq> [] \<and> (\<forall>(now, env) \<in> set polls. \<not> signed_by env (Some b))
          \<longrightarrow> open_for (buy_polls cfg polls u s) u b)"
proof (intro conjI impI)
  assume "\<not> truthy_str (o_buyer ord) \<and> be_payload env = Resolved (Some p) \<and> xp_has_meta p
            \<and> xp_signed p \<and> truthy_str (xp_txid p)"
  with assms show "\<exists>ord'. ordersByPaymentPayload (fst (snd (buy_status cfg now env u s))) u = Some ord'
                  \<and> o_buyer ord' = xp_account p"
    using first_observed_pinned by blast
next
  assume a: "o_buyer ord = Some b \<and> b \<noteq> [] \<and> be_payload env = Resolved (Some p) \<and> xp_has_meta p
            \<and> xp_signed p \<and> truthy_str (xp_txid p) \<and> xp_account p \<noteq> Some b"
  with assms have o: "open_for s u b"
    by (simp add: open_for_def)
  from a have n: "\<not> signed_by env (Some b)"
    by (simp add: signed_by_def)
  from o a show "fst (buy_status cfg now env u s)
                  = respond 400 (StatusError ''Buyer mismatch for this order'')"
    and "snd (snd (buy_status cfg now env u s)) = [PayloadGet u]"
    using mismatch_rejected [of s u b env p cfg now] by simp_all
  from o a n show "open_for (fst (snd (buy_status cfg now env u s))) u b"
    using open_step by blast
next
  assume a: "o_buyer ord = Some b \<and> b \<noteq> [] \<and> (\<forall>(now, env) \<in> set polls. \<not> signed_by env (Some b))"
  with assms have "open_for s u b"
    by (simp add: open_for_def)
  with a show "open_for (buy_polls cfg polls u s) u b"
    using open_polls by blast
qed

theorem payer_pinned_witness:
  "ordersByPaymentPayload sample_shop ''U'' = Some sample_order
 \<and> o_buyer sample_order = Some ''rBuyer''
 \<and> fst (buy_status sample_cfg 1000 (sample_env ''rThief'' ''rThief'' ''rStore'') ''U'' sample_shop)
      = respond 400 (StatusError ''Buyer mismatch for this order'')
 \<and> snd (snd (buy_status sample_cfg 1000 (sample_env ''rThief'' ''rThief'' ''rStore'') ''U'' sample_shop))
      = [PayloadGet ''U'']
 \<and> open_for (buy_polls sample_cfg
      [(1000, sample_env ''rThief'' ''rThief'' ''rStore''),
       (2000, sample_env ''rOther'' ''rBuyer'' ''rStore'')] ''U'' sample_shop) ''U'' ''rBuyer''"
proof -
  have a: "ordersByPaymentPayload sample_shop ''U'' = Some sample_order"
    "o_status sample_order = Created" "completedByPayload sample_shop ''U'' = None"
    "o_buyer sample_order = Some ''rBuyer''"
    by (simp_all add: sample_shop_def empty_shop_def sample_order_def)
  have p: "be_payload (sample_env ''rThief'' ''rThief'' ''rStore'')
             = Resolved (Some \<lparr>xp_has_meta = True, xp_signed = True,
                               xp_account = Some ''rThief'', xp_txid = Some ''T''\<rparr>)"
    by (simp add: sample_env_def)
  have n: "\<forall>(now, env) \<in> set [(1000, sample_env ''rThief'' ''rThief'' ''rStore''),
       (2000, sample_env ''rOther'' ''rBuyer'' ''rStore'')]. \<not> signed_by env (Some ''rBuyer'')"
    by (simp add: signed_by_def sample_env_def)
  show ?thesis
    using payer_pinned [OF a(1,2,3), of "sample_env ''rThief'' ''rThief'' ''rStore''"
        "\<lparr>xp_has_meta = True, xp_signed = True, xp_account = Some ''rThief'', xp_txid = Some ''T''\<rparr>"
        sample_cfg 1000 "''rBuyer''"
        "[(1000, sample_env ''rThief'' ''rThief'' ''rStore''),
          (2000, sample_env ''rOther'' ''rBuyer'' ''rStore'')]"]
      a p n
    by (simp add: truthy_str_def)
qed


section \<open>AI-order: idempotent creation\<close>














section \<open>Smart-Locker: the unlock and the holder's inventory\<close>

text \<open>
  When a poll answers, the unlock fires exactly if the redemption is not yet unlocked and
  either the payload is signed and has a transaction id, or the inventory read found the
  token absent.
\<close>

lemma redeem_fires_iff:
  assumes "redeem_status env u rs = (RedeemOk r, rs')"
  shows "rr_unlockResult r = Some ''OPEN'' \<longleftrightarrow>
           ((rr_signed r \<and> rr_txid r \<noteq> None) \<or> rr_burnedOnChain r)
           \<and> \<not> (case rs (trim u) of None \<Rightarrow> False | Some r0 \<Rightarrow> rd_unlocked r0)"
  using assms
  by (auto simp: redeem_status_def Let_def split: if_splits awaited.splits option.splits)

text \<open>
  C2 fails on the code. The payload is signed and carries a transaction id, the
  authoritative read of the holder's inventory still lists the token (so the burn is not
  confirmed: \<open>burnedOnChain\<close> is false), and the unlock fires all the same and the
  redemption is marked unlocked.
\<close>

theorem redeem_unlocks_while_token_held:
  "redeem_status held_env ''B'' held_redeems =
     (RedeemOk \<lparr>rr_resolved = True, rr_signed = True, rr_cancelled = False, rr_txid = Some ''T'',
                 rr_burnedOnChain = False, rr_chainError = None, rr_unlocked = True,
                 rr_unlockResult = Some ''OPEN''\<rparr>,
      [''B'' \<mapsto> \<lparr>rd_account = Some ''rHolder'', rd_nftokenId = Some ''00ab'', rd_unlocked = True\<rparr>])"
  by (simp add: redeem_status_def held_env_def held_redeems_def trim_def is_space_def
        truthy_str_def toUpperCase_def upper_char_def or_empty_def Let_def)


section \<open>MPT-Issuer: the amount to issue\<close>

text \<open>The roundings the three sample payments go through, one at a time.\<close>

lemma ilog2_1000000_1: "ilog2 1000000 1 = 19"
  by (simp add: ilog2_def ilog2_adjust_def bit_length.simps del: One_nat_def)

lemma rd_1000000_1: "rd 1000000 1 = Fin 1000000 1"
  by (simp add: rd_def ilog2_1000000_1 rd_scaled_def rd_result_def round_half_even_def nearest_even_def
        lowest_terms.simps signed_fin_def del: One_nat_def)

lemma ilog2_1000000_1000000: "ilog2 1000000 1000000 = 0"
  by (simp add: ilog2_def ilog2_adjust_def bit_length.simps del: One_nat_def)

lemma rd_1000000_1000000: "rd 1000000 1000000 = Fin 1 1"
  by (simp add: rd_def ilog2_1000000_1000000 rd_scaled_def rd_result_def round_half_even_def nearest_even_def
        lowest_terms.simps signed_fin_def del: One_nat_def)

lemma ilog2_2_1: "ilog2 2 1 = 1"
  by (simp add: ilog2_def ilog2_adjust_def bit_length.simps del: One_nat_def)

lemma rd_2_1: "rd 2 1 = Fin 2 1"
  by (simp add: rd_def ilog2_2_1 rd_scaled_def rd_result_def round_half_even_def nearest_even_def
        lowest_terms.simps signed_fin_def del: One_nat_def)

lemma ilog2_1400000_1: "ilog2 1400000 1 = 20"
  by (simp add: ilog2_def ilog2_adjust_def bit_length.simps del: One_nat_def)

lemma rd_1400000_1: "rd 1400000 1 = Fin 1400000 1"
  by (simp add: rd_def ilog2_1400000_1 rd_scaled_def rd_result_def round_half_even_def nearest_even_def
        lowest_terms.simps signed_fin_def del: One_nat_def)

lemma ilog2_1400000_1000000: "ilog2 1400000 1000000 = 0"
  by (simp add: ilog2_def ilog2_adjust_def bit_length.simps del: One_nat_def)

lemma rd_1400000_1000000: "rd 1400000 1000000 = Fin 3152519739159347 2251799813685248"
  by (simp add: rd_def ilog2_1400000_1000000 rd_scaled_def rd_result_def round_half_even_def nearest_even_def
        lowest_terms.simps signed_fin_def del: One_nat_def)

lemma ilog2_6305039478318694_2251799813685248: "ilog2 6305039478318694 2251799813685248 = 1"
  by (simp add: ilog2_def ilog2_adjust_def bit_length.simps del: One_nat_def)

lemma rd_6305039478318694_2251799813685248: "rd 6305039478318694 2251799813685248 = Fin 3152519739159347 1125899906842624"
  by (simp add: rd_def ilog2_6305039478318694_2251799813685248 rd_scaled_def rd_result_def round_half_even_def nearest_even_def
        lowest_terms.simps signed_fin_def del: One_nat_def)

lemma ilog2_29_100: "ilog2 29 100 = - 2"
  by (simp add: ilog2_def ilog2_adjust_def bit_length.simps del: One_nat_def)

lemma rd_29_100: "rd 29 100 = Fin 5224175567749775 18014398509481984"
  by (simp add: rd_def ilog2_29_100 rd_scaled_def rd_result_def round_half_even_def nearest_even_def
        lowest_terms.simps signed_fin_def del: One_nat_def)

lemma ilog2_522417556774977500_18014398509481984: "ilog2 522417556774977500 18014398509481984 = 4"
  by (simp add: ilog2_def ilog2_adjust_def bit_length.simps del: One_nat_def)

lemma rd_522417556774977500_18014398509481984: "rd 522417556774977500 18014398509481984 = Fin 8162774324609023 281474976710656"
  by (simp add: rd_def ilog2_522417556774977500_18014398509481984 rd_scaled_def rd_result_def round_half_even_def nearest_even_def
        lowest_terms.simps signed_fin_def del: One_nat_def)

lemmas parse_defs = Number_string_def trim_def is_space_def parse_decimal_def parse_exponent_def
  parse_radix_def is_digit_def is_radix_digit_def digits_val_def digit_val_def digit_table_def
  lower_char_def Let_def

lemma parse_1000000: "parse_decimal ''1000000'' = Some (1000000, 1)"
  by (simp add: parse_defs del: One_nat_def)

lemma parse_1400000: "parse_decimal ''1400000'' = Some (1400000, 1)"
  by (simp add: parse_defs del: One_nat_def)

lemma parse_029: "parse_decimal ''0.29'' = Some (29, 100)"
  by (simp add: parse_defs)

lemma number_1000000: "Number_string ''1000000'' = Fin 1000000 1"
  by (simp add: Number_string_def trim_def is_space_def parse_1000000 rd_1000000_1 del: One_nat_def)

lemma number_1400000: "Number_string ''1400000'' = Fin 1400000 1"
  by (simp add: Number_string_def trim_def is_space_def parse_1400000 rd_1400000_1 del: One_nat_def)

lemma number_029: "Number_string ''0.29'' = Fin 5224175567749775 18014398509481984"
  by (simp add: Number_string_def trim_def is_space_def parse_029 rd_29_100)

lemma paid_of_delivered: "paid_of (delivered amt) = Some amt"
  by (simp add: paid_of_def delivered_def tx_json_of_def meta_of_def or_else_def)

lemma upper_RLUSD: "toUpperCase ''RLUSD'' = ''RLUSD''"
  by (simp add: toUpperCase_def upper_char_def)

lemma calc_one_xrp: "calcMptToSendFromPayment (delivered (PaidString ''1000000'')) = Fin 2 1"
  by (simp add: calcMptToSendFromPayment_def paid_of_delivered number_1000000 finite_positive_def
        js_div_def js_mul_def Math_floor_def rd_1000000_1000000 rd_2_1 del: One_nat_def)

lemma calc_1_4_xrp: "calcMptToSendFromPayment (delivered (PaidString ''1400000'')) = Fin 2 1"
  by (simp add: calcMptToSendFromPayment_def paid_of_delivered number_1400000 finite_positive_def
        js_div_def js_mul_def Math_floor_def rd_1400000_1000000 rd_6305039478318694_2251799813685248
        del: One_nat_def)

lemma calc_029_rlusd: "calcMptToSendFromPayment (delivered (rlusd ''0.29'')) = Fin 28 1"
  by (simp add: calcMptToSendFromPayment_def paid_of_delivered rlusd_def number_029
        finite_positive_def or_empty_def upper_RLUSD js_mul_def Math_floor_def
        rd_522417556774977500_18014398509481984 del: One_nat_def)

text \<open>
  C4 fails on the code for issued-asset amounts. A payment of 1 XRP (1000000 drops) and
  one of 1.4 XRP (1400000 drops) give 2, as claimed. A delivered amount of 0.29 RLUSD
  gives 28, while \<open>floor(0.29 * 100)\<close> is 29: \<open>Number("0.29")\<close> is the binary64 value
  \<open>5224175567749775 / 2^54\<close>, just below 0.29, and its product with 100 rounds to
  \<open>8162774324609023 / 2^48 = 28.999999999999996\<close>.
\<close>

theorem calc_rlusd_029_is_28:
  "calcMptToSendFromPayment (delivered (PaidString ''1000000'')) = Fin 2 1
 \<and> calcMptToSendFromPayment (delivered (PaidString ''1400000'')) = Fin 2 1
 \<and> calcMptToSendFromPayment (delivered (rlusd ''0.29'')) = Fin 28 1
 \<and> \<lfloor>(29 / 100 :: rat) * 100\<rfloor> = 29"
  using calc_one_xrp calc_1_4_xrp calc_029_rlusd by simp


end
